theory Spec2Isabelle
  imports Main "HOL-Library.Monad_Syntax"
begin

section \<open>Python values\<close>

text \<open>
  The values that occur in the script's field specifications: strings, integers and
  booleans (and \<open>None\<close>). A tuple is the list of its components.
\<close>

datatype pyval = PStr string | PInt int | PBool bool | PNone

type_synonym pytuple = "pyval list"

text \<open>
  \<open>t[i]\<close> for a literal index \<open>i \<ge> 0\<close>: \<open>None\<close> stands for Python's IndexError.
\<close>

definition getitem :: "pytuple \<Rightarrow> nat \<Rightarrow> pyval option" where
  "getitem t i = (if i < length t then Some (t ! i) else None)"

fun digits :: "nat \<Rightarrow> string" where
  "digits n =
     (if n < 10 then [''0123456789'' ! n]
      else digits (n div 10) @ [''0123456789'' ! (n mod 10)])"

text \<open>What \<open>'{x}'.format(x = v)\<close> puts in place of the field.\<close>

definition py_format :: "pyval \<Rightarrow> string" where
  "py_format v =
     (case v of
        PStr s \<Rightarrow> s
      | PInt i \<Rightarrow> (if i < 0 then ''-'' @ digits (nat (- i)) else digits (nat i))
      | PBool b \<Rightarrow> (if b then ''True'' else ''False'')
      | PNone \<Rightarrow> ''None'')"

text \<open>The escapes \<open>\t\<close>, \<open>\n\<close> and the backslash of the script's string literals.\<close>

definition TAB :: string where
  "TAB = [CHR 0x09]"

definition NL :: string where
  "NL = [CHR 0x0A]"

definition BACKSLASH :: string where
  "BACKSLASH = [CHR 0x5C]"

text \<open>
  \<open>os.path.join\<close> of two components on the platform the script runs on (ArcGIS
  Desktop, Windows): a second component that starts with a separator replaces the first,
  otherwise a backslash is inserted unless the first is empty or already ends with a
  separator. Drive prefixes are left out: no path of the script has one.
\<close>

definition is_sep :: "char \<Rightarrow> bool" where
  "is_sep c = (c = CHR 0x5C \<or> c = CHR ''/'')"

definition path_join :: "string \<Rightarrow> string \<Rightarrow> string" where
  "path_join a b =
     (if b \<noteq> [] \<and> is_sep (hd b) then b
      else if a \<noteq> [] \<and> \<not> is_sep (last a) then a @ BACKSLASH @ b
      else a @ b)"


section \<open>The geodatabase platform\<close>

datatype spatial_reference = SpatialReference int

text \<open>
  One constructor per function of the platform's API that the script calls, with the
  arguments the script passes:
  \<^item> \<open>CreateFeatureclass_management out_path out_name geometry_type spatial_reference\<close>;
  \<^item> \<open>AddField_management in_table field_name field_type field_precision field_scale
    field_length field_alias field_is_nullable field_is_required field_domain\<close>;
  \<^item> \<open>AddIndex_management in_table fields index_name\<close>;
  \<^item> \<open>ChangePrivileges_management in_dataset user View Edit\<close>.
\<close>

datatype call =
    AddMessage string
  | AddWarning string
  | CreateFeatureclass_management string string string spatial_reference
  | AddField_management string pyval pyval pyval pyval pyval pyval pyval pyval pyval
  | AddIndex_management string string string
  | ChangePrivileges_management string string string string

text \<open>
  The platform decides whether a call fails: given the calls issued so far and the call
  made now, it answers \<open>None\<close> (the call returns) or \<open>Some e\<close> (the call raises
  \<open>e\<close>). The script never reads what a call returns.
\<close>

type_synonym 'e api = "call list \<Rightarrow> call \<Rightarrow> 'e option"

datatype 'e exn = IndexError | ApiError 'e

text \<open>
  A piece of the script takes the calls issued so far and gives the calls issued when it
  ends, with the exception it ended by, if any.
\<close>

type_synonym 'e comp = "call list \<Rightarrow> call list \<times> 'e exn option"

definition invoke :: "'e api \<Rightarrow> call \<Rightarrow> 'e comp" where
  "invoke api c h = (h @ [c], map_option ApiError (api h c))"

definition raise :: "'e exn \<Rightarrow> 'e comp" where
  "raise x h = (h, Some x)"

text \<open>Statements one after the other: an exception ends the sequence.\<close>

fun block :: "'e comp list \<Rightarrow> 'e comp" where
  "block [] h = (h, None)"
| "block (m # ms) h =
     (case m h of
        (h', None) \<Rightarrow> block ms h'
      | (h', Some x) \<Rightarrow> (h', Some x))"


section \<open>Constants\<close>

definition OUTPUT_GEODATABASE :: string where
  "OUTPUT_GEODATABASE = ''Database Connections'' @ BACKSLASH @ ''orcl$gis.sde''"

definition UTM_16N_NAD83 :: spatial_reference where
  "UTM_16N_NAD83 = SpatialReference 26916"

definition FC_NAME_ERP :: string where
  "FC_NAME_ERP = ''GIS.DATABASES_ERP''"

definition FC_NAME_ERP_SITE :: string where
  "FC_NAME_ERP_SITE = ''GIS.DATABASES_ERP_SITE''"

definition FC_NAME_ERP_SITE_40A_4 :: string where
  "FC_NAME_ERP_SITE_40A_4 = ''GIS.DATABASES_ERP_SITE_40A_4''"

definition FC_NAME_ERP_SITE_40A_44 :: string where
  "FC_NAME_ERP_SITE_40A_44 = ''GIS.DATABASES_ERP_SITE_40A_44''"

definition FC_NAME_ERP_SITE_62_330 :: string where
  "FC_NAME_ERP_SITE_62_330 = ''GIS.DATABASES_ERP_SITE_62_330''"

definition FC_NAME_ERP_SITE_FORESTRY :: string where
  "FC_NAME_ERP_SITE_FORESTRY = ''GIS.DATABASES_ERP_SITE_FORESTRY''"

definition FC_NAME_MSSW :: string where
  "FC_NAME_MSSW = ''GIS.DATABASES_MSSW''"

definition FC_NAME_REG_STATION :: string where
  "FC_NAME_REG_STATION = ''GIS.DATABASES_REG_STATION''"

definition FC_NAME_WI :: string where
  "FC_NAME_WI = ''GIS.DATABASES_WELL_INVENTORY''"

definition FC_NAME_WPS :: string where
  "FC_NAME_WPS = ''GIS.DATABASES_WELL_PERMITS''"

definition FC_NAME_WUP_PERMITTED :: string where
  "FC_NAME_WUP_PERMITTED = ''GIS.DATABASES_WUP_PERMITTED''"

definition FC_NAME_WUP_SURFACE :: string where
  "FC_NAME_WUP_SURFACE = ''GIS.DATABASES_WUP_SURFACE''"

definition FC_NAME_WUP_WELLS :: string where
  "FC_NAME_WUP_WELLS = ''GIS.DATABASES_WUP_WELLS''"


section \<open>Utility functions\<close>

text \<open>
  The arguments of the \<open>AddField_management\<close> call are \<open>field_spec[0]\<close> to
  \<open>field_spec[8]\<close>, read in this order before the call is made.
\<close>

definition AddField_call :: "string \<Rightarrow> pytuple \<Rightarrow> call option" where
  "AddField_call table field_spec =
     do {
       a0 \<leftarrow> getitem field_spec 0;
       a1 \<leftarrow> getitem field_spec 1;
       a2 \<leftarrow> getitem field_spec 2;
       a3 \<leftarrow> getitem field_spec 3;
       a4 \<leftarrow> getitem field_spec 4;
       a5 \<leftarrow> getitem field_spec 5;
       a6 \<leftarrow> getitem field_spec 6;
       a7 \<leftarrow> getitem field_spec 7;
       a8 \<leftarrow> getitem field_spec 8;
       Some (AddField_management table a0 a1 a2 a3 a4 a5 a6 a7 a8)
     }"

text \<open>The body of the loop of \<open>add_fields\<close>, for one \<open>field_spec\<close>.\<close>

definition add_fields_body :: "'e api \<Rightarrow> string \<Rightarrow> pytuple \<Rightarrow> 'e comp" where
  "add_fields_body api table field_spec =
     (case getitem field_spec 0 of
        None \<Rightarrow> raise IndexError
      | Some field_name \<Rightarrow>
          block [
            invoke api (AddMessage (TAB @ TAB @ ''Adding '' @ py_format field_name)),
            (case AddField_call table field_spec of
               None \<Rightarrow> raise IndexError
             | Some c \<Rightarrow> invoke api c)
          ])"

fun add_fields :: "'e api \<Rightarrow> string \<Rightarrow> pytuple list \<Rightarrow> 'e comp" where
  "add_fields api table [] h = (h, None)"
| "add_fields api table (field_spec # fields_spec) h =
     (case add_fields_body api table field_spec h of
        (h', None) \<Rightarrow> add_fields api table fields_spec h'
      | (h', Some x) \<Rightarrow> (h', Some x))"


section \<open>Feature class creation functions\<close>

subsection \<open>create_databases_erp\<close>

definition fields_spec_erp :: "pytuple list" where
  "fields_spec_erp = [
     [PStr ''application_number'', PStr ''DOUBLE'', PStr '''', PStr '''', PStr '''', PStr '''', PBool True, PStr '''', PStr ''''],
     [PStr ''permit_number'', PStr ''DOUBLE'', PStr '''', PStr '''', PStr '''', PStr '''', PBool True, PStr '''', PStr ''''],
     [PStr ''legacy_permit_number'', PStr ''TEXT'', PStr '''', PStr '''', PInt 35, PStr '''', PBool True, PStr '''', PStr ''''],
     [PStr ''applicant_first_name'', PStr ''TEXT'', PStr '''', PStr '''', PInt 30, PStr '''', PBool True, PStr '''', PStr ''''],
     [PStr ''applicant_last_name'', PStr ''TEXT'', PStr '''', PStr '''', PInt 30, PStr '''', PBool True, PStr '''', PStr ''''],
     [PStr ''applicant_company_name'', PStr ''TEXT'', PStr '''', PStr '''', PInt 150, PStr '''', PBool True, PStr '''', PStr ''''],
     [PStr ''project_name'', PStr ''TEXT'', PStr '''', PStr '''', PInt 200, PStr '''', PBool True, PStr '''', PStr ''''],
     [PStr ''project_address'', PStr ''TEXT'', PStr '''', PStr '''', PInt 1000, PStr '''', PBool True, PStr '''', PStr ''''],
     [PStr ''issue_date'', PStr ''DATE'', PStr '''', PStr '''', PStr '''', PStr '''', PBool True, PStr '''', PStr ''''],
     [PStr ''expiration_date'', PStr ''DATE'', PStr '''', PStr '''', PStr '''', PStr '''', PBool True, PStr '''', PStr ''''],
     [PStr ''rule_type'', PStr ''TEXT'', PStr '''', PStr '''', PInt 17, PStr '''', PBool True, PStr '''', PStr '''']
   ]"

definition create_databases_erp :: "'e api \<Rightarrow> 'e comp" where
  "create_databases_erp api =
     (let fc_erp = path_join OUTPUT_GEODATABASE FC_NAME_ERP in
      block [
        invoke api (AddMessage (NL @ NL @ ''Creating feature class '' @ FC_NAME_ERP)),
        invoke api (CreateFeatureclass_management OUTPUT_GEODATABASE FC_NAME_ERP ''POINT'' UTM_16N_NAD83),
        invoke api (AddMessage (TAB @ ''Adding fields'')),
        add_fields api fc_erp fields_spec_erp,
        invoke api (AddMessage (TAB @ ''Granting privileges'')),
        invoke api (ChangePrivileges_management fc_erp ''GIS_READ'' ''GRANT'' ''AS_IS'')
      ])"

subsection \<open>create_databases_erp_site\<close>

definition fields_spec_erp_site :: "pytuple list" where
  "fields_spec_erp_site = [
     [PStr ''site_id'', PStr ''DOUBLE'', PStr '''', PStr '''', PStr '''', PStr '''', PBool True, PStr '''', PStr ''''],
     [PStr ''permit_number'', PStr ''DOUBLE'', PStr '''', PStr '''', PStr '''', PStr '''', PBool True, PStr '''', PStr ''''],
     [PStr ''project_number'', PStr ''TEXT'', PStr '''', PStr '''', PInt 50, PStr '''', PBool True, PStr '''', PStr ''''],
     [PStr ''permit_type'', PStr ''TEXT'', PStr '''', PStr '''', PInt 8, PStr '''', PBool True, PStr '''', PStr ''''],
     [PStr ''county_fips'', PStr ''TEXT'', PStr '''', PStr '''', PInt 8, PStr '''', PBool True, PStr '''', PStr ''''],
     [PStr ''official_permit_number'', PStr ''TEXT'', PStr '''', PStr '''', PInt 8, PStr '''', PBool True, PStr '''', PStr ''''],
     [PStr ''sequence_number'', PStr ''TEXT'', PStr '''', PStr '''', PInt 8, PStr '''', PBool True, PStr '''', PStr ''''],
     [PStr ''application_status'', PStr ''TEXT'', PStr '''', PStr '''', PInt 100, PStr '''', PBool True, PStr '''', PStr ''''],
     [PStr ''rule_code'', PStr ''TEXT'', PStr '''', PStr '''', PInt 100, PStr '''', PBool True, PStr '''', PStr ''''],
     [PStr ''rule_description'', PStr ''TEXT'', PStr '''', PStr '''', PInt 200, PStr '''', PBool True, PStr '''', PStr ''''],
     [PStr ''project_name'', PStr ''TEXT'', PStr '''', PStr '''', PInt 200, PStr '''', PBool True, PStr '''', PStr ''''],
     [PStr ''project_county'', PStr ''TEXT'', PStr '''', PStr '''', PInt 20, PStr '''', PBool True, PStr '''', PStr ''''],
     [PStr ''site_location'', PStr ''TEXT'', PStr '''', PStr '''', PInt 1000, PStr '''', PBool True, PStr '''', PStr ''''],
     [PStr ''party_role'', PStr ''TEXT'', PStr '''', PStr '''', PInt 100, PStr '''', PBool True, PStr '''', PStr ''''],
     [PStr ''party_company_name'', PStr ''TEXT'', PStr '''', PStr '''', PInt 150, PStr '''', PBool True, PStr '''', PStr ''''],
     [PStr ''party_first_name'', PStr ''TEXT'', PStr '''', PStr '''', PInt 30, PStr '''', PBool True, PStr '''', PStr ''''],
     [PStr ''party_last_name'', PStr ''TEXT'', PStr '''', PStr '''', PInt 30, PStr '''', PBool True, PStr '''', PStr ''''],
     [PStr ''expiration_date'', PStr ''DATE'', PStr '''', PStr '''', PStr '''', PStr '''', PBool True, PStr '''', PStr ''''],
     [PStr ''issue_date'', PStr ''DATE'', PStr '''', PStr '''', PStr '''', PStr '''', PBool True, PStr '''', PStr ''''],
     [PStr ''review_date'', PStr ''DATE'', PStr '''', PStr '''', PStr '''', PStr '''', PBool True, PStr '''', PStr ''''],
     [PStr ''legacy_permit_number'', PStr ''TEXT'', PStr '''', PStr '''', PInt 35, PStr '''', PBool True, PStr '''', PStr ''''],
     [PStr ''item_number'', PStr ''DOUBLE'', PStr '''', PStr '''', PStr '''', PStr '''', PBool True, PStr '''', PStr ''''],
     [PStr ''item_type'', PStr ''TEXT'', PStr '''', PStr '''', PInt 100, PStr '''', PBool True, PStr '''', PStr ''''],
     [PStr ''item_stage'', PStr ''TEXT'', PStr '''', PStr '''', PInt 100, PStr '''', PBool True, PStr '''', PStr '''']
   ]"

definition create_databases_erp_site :: "'e api \<Rightarrow> 'e comp" where
  "create_databases_erp_site api =
     (let fc_erp_site = path_join OUTPUT_GEODATABASE FC_NAME_ERP_SITE in
      block [
        invoke api (AddMessage (NL @ NL @ ''Creating feature class '' @ FC_NAME_ERP_SITE)),
        invoke api (CreateFeatureclass_management OUTPUT_GEODATABASE FC_NAME_ERP_SITE ''POINT'' UTM_16N_NAD83),
        invoke api (AddMessage (TAB @ ''Adding fields'')),
        add_fields api fc_erp_site fields_spec_erp_site,
        invoke api (AddMessage (TAB @ ''Granting privileges'')),
        invoke api (ChangePrivileges_management fc_erp_site ''GIS_READ'' ''GRANT'' ''AS_IS'')
      ])"

subsection \<open>create_databases_erp_site_40a_4\<close>

definition fields_spec_erp_site_40a_4 :: "pytuple list" where
  "fields_spec_erp_site_40a_4 = [
     [PStr ''site_id'', PStr ''DOUBLE'', PStr '''', PStr '''', PStr '''', PStr '''', PBool True, PStr '''', PStr ''''],
     [PStr ''permit_number'', PStr ''DOUBLE'', PStr '''', PStr '''', PStr '''', PStr '''', PBool True, PStr '''', PStr ''''],
     [PStr ''project_number'', PStr ''TEXT'', PStr '''', PStr '''', PInt 50, PStr '''', PBool True, PStr '''', PStr ''''],
     [PStr ''permit_type'', PStr ''TEXT'', PStr '''', PStr '''', PInt 8, PStr '''', PBool True, PStr '''', PStr ''''],
     [PStr ''county_fips'', PStr ''TEXT'', PStr '''', PStr '''', PInt 8, PStr '''', PBool True, PStr '''', PStr ''''],
     [PStr ''official_permit_number'', PStr ''TEXT'', PStr '''', PStr '''', PInt 8, PStr '''', PBool True, PStr '''', PStr ''''],
     [PStr ''sequence_number'', PStr ''TEXT'', PStr '''', PStr '''', PInt 8, PStr '''', PBool True, PStr '''', PStr ''''],
     [PStr ''application_status'', PStr ''TEXT'', PStr '''', PStr '''', PInt 100, PStr '''', PBool True, PStr '''', PStr ''''],
     [PStr ''rule_code'', PStr ''TEXT'', PStr '''', PStr '''', PInt 100, PStr '''', PBool True, PStr '''', PStr ''''],
     [PStr ''rule_description'', PStr ''TEXT'', PStr '''', PStr '''', PInt 200, PStr '''', PBool True, PStr '''', PStr ''''],
     [PStr ''project_name'', PStr ''TEXT'', PStr '''', PStr '''', PInt 200, PStr '''', PBool True, PStr '''', PStr ''''],
     [PStr ''project_county'', PStr ''TEXT'', PStr '''', PStr '''', PInt 20, PStr '''', PBool True, PStr '''', PStr ''''],
     [PStr ''site_location'', PStr ''TEXT'', PStr '''', PStr '''', PInt 1000, PStr '''', PBool True, PStr '''', PStr ''''],
     [PStr ''expiration_date'', PStr ''DATE'', PStr '''', PStr '''', PStr '''', PStr '''', PBool True, PStr '''', PStr ''''],
     [PStr ''issue_date'', PStr ''DATE'', PStr '''', PStr '''', PStr '''', PStr '''', PBool True, PStr '''', PStr ''''],
     [PStr ''review_date'', PStr ''DATE'', PStr '''', PStr '''', PStr '''', PStr '''', PBool True, PStr '''', PStr ''''],
     [PStr ''legacy_permit_number'', PStr ''TEXT'', PStr '''', PStr '''', PInt 35, PStr '''', PBool True, PStr '''', PStr ''''],
     [PStr ''item_number'', PStr ''DOUBLE'', PStr '''', PStr '''', PStr '''', PStr '''', PBool True, PStr '''', PStr ''''],
     [PStr ''item_type'', PStr ''TEXT'', PStr '''', PStr '''', PInt 100, PStr '''', PBool True, PStr '''', PStr ''''],
     [PStr ''item_stage'', PStr ''TEXT'', PStr '''', PStr '''', PInt 100, PStr '''', PBool True, PStr '''', PStr '''']
   ]"

definition create_databases_erp_site_40a_4 :: "'e api \<Rightarrow> 'e comp" where
  "create_databases_erp_site_40a_4 api =
     (let fc_erp_site_40a_4 = path_join OUTPUT_GEODATABASE FC_NAME_ERP_SITE_40A_4 in
      block [
        invoke api (AddMessage (NL @ NL @ ''Creating feature class '' @ FC_NAME_ERP_SITE_40A_4)),
        invoke api (CreateFeatureclass_management OUTPUT_GEODATABASE FC_NAME_ERP_SITE_40A_4 ''POINT'' UTM_16N_NAD83),
        invoke api (AddMessage (TAB @ ''Adding fields'')),
        add_fields api fc_erp_site_40a_4 fields_spec_erp_site_40a_4,
        invoke api (AddMessage (TAB @ ''Granting privileges'')),
        invoke api (ChangePrivileges_management fc_erp_site_40a_4 ''GIS_READ'' ''GRANT'' ''AS_IS'')
      ])"

subsection \<open>create_databases_erp_site_40a_44\<close>

definition fields_spec_erp_site_40a_44 :: "pytuple list" where
  "fields_spec_erp_site_40a_44 = [
     [PStr ''site_id'', PStr ''DOUBLE'', PStr '''', PStr '''', PStr '''', PStr '''', PBool True, PStr '''', PStr ''''],
     [PStr ''permit_number'', PStr ''DOUBLE'', PStr '''', PStr '''', PStr '''', PStr '''', PBool True, PStr '''', PStr ''''],
     [PStr ''project_number'', PStr ''TEXT'', PStr '''', PStr '''', PInt 50, PStr '''', PBool True, PStr '''', PStr ''''],
     [PStr ''permit_type'', PStr ''TEXT'', PStr '''', PStr '''', PInt 8, PStr '''', PBool True, PStr '''', PStr ''''],
     [PStr ''county_fips'', PStr ''TEXT'', PStr '''', PStr '''', PInt 8, PStr '''', PBool True, PStr '''', PStr ''''],
     [PStr ''official_permit_number'', PStr ''TEXT'', PStr '''', PStr '''', PInt 8, PStr '''', PBool True, PStr '''', PStr ''''],
     [PStr ''sequence_number'', PStr ''TEXT'', PStr '''', PStr '''', PInt 8, PStr '''', PBool True, PStr '''', PStr ''''],
     [PStr ''application_status'', PStr ''TEXT'', PStr '''', PStr '''', PInt 100, PStr '''', PBool True, PStr '''', PStr ''''],
     [PStr ''rule_code'', PStr ''TEXT'', PStr '''', PStr '''', PInt 100, PStr '''', PBool True, PStr '''', PStr ''''],
     [PStr ''rule_description'', PStr ''TEXT'', PStr '''', PStr '''', PInt 200, PStr '''', PBool True, PStr '''', PStr ''''],
     [PStr ''project_name'', PStr ''TEXT'', PStr '''', PStr '''', PInt 200, PStr '''', PBool True, PStr '''', PStr ''''],
     [PStr ''project_county'', PStr ''TEXT'', PStr '''', PStr '''', PInt 20, PStr '''', PBool True, PStr '''', PStr ''''],
     [PStr ''site_location'', PStr ''TEXT'', PStr '''', PStr '''', PInt 1000, PStr '''', PBool True, PStr '''', PStr ''''],
     [PStr ''expiration_date'', PStr ''DATE'', PStr '''', PStr '''', PStr '''', PStr '''', PBool True, PStr '''', PStr ''''],
     [PStr ''issue_date'', PStr ''DATE'', PStr '''', PStr '''', PStr '''', PStr '''', PBool True, PStr '''', PStr ''''],
     [PStr ''review_date'', PStr ''DATE'', PStr '''', PStr '''', PStr '''', PStr '''', PBool True, PStr '''', PStr ''''],
     [PStr ''legacy_permit_number'', PStr ''TEXT'', PStr '''', PStr '''', PInt 35, PStr '''', PBool True, PStr '''', PStr ''''],
     [PStr ''item_number'', PStr ''DOUBLE'', PStr '''', PStr '''', PStr '''', PStr '''', PBool True, PStr '''', PStr ''''],
     [PStr ''item_type'', PStr ''TEXT'', PStr '''', PStr '''', PInt 100, PStr '''', PBool True, PStr '''', PStr ''''],
     [PStr ''item_stage'', PStr ''TEXT'', PStr '''', PStr '''', PInt 100, PStr '''', PBool True, PStr '''', PStr '''']
   ]"

definition create_databases_erp_site_40a_44 :: "'e api \<Rightarrow> 'e comp" where
  "create_databases_erp_site_40a_44 api =
     (let fc_erp_site_40a_44 = path_join OUTPUT_GEODATABASE FC_NAME_ERP_SITE_40A_44 in
      block [
        invoke api (AddMessage (NL @ NL @ ''Creating feature class '' @ FC_NAME_ERP_SITE_40A_44)),
        invoke api (CreateFeatureclass_management OUTPUT_GEODATABASE FC_NAME_ERP_SITE_40A_44 ''POINT'' UTM_16N_NAD83),
        invoke api (AddMessage (TAB @ ''Adding fields'')),
        add_fields api fc_erp_site_40a_44 fields_spec_erp_site_40a_44,
        invoke api (AddMessage (TAB @ ''Granting privileges'')),
        invoke api (ChangePrivileges_management fc_erp_site_40a_44 ''GIS_READ'' ''GRANT'' ''AS_IS'')
      ])"

subsection \<open>create_databases_erp_site_62_330\<close>

definition fields_spec_erp_site_62_330 :: "pytuple list" where
  "fields_spec_erp_site_62_330 = [
     [PStr ''site_id'', PStr ''DOUBLE'', PStr '''', PStr '''', PStr '''', PStr '''', PBool True, PStr '''', PStr ''''],
     [PStr ''permit_number'', PStr ''DOUBLE'', PStr '''', PStr '''', PStr '''', PStr '''', PBool True, PStr '''', PStr ''''],
     [PStr ''project_number'', PStr ''TEXT'', PStr '''', PStr '''', PInt 50, PStr '''', PBool True, PStr '''', PStr ''''],
     [PStr ''permit_type'', PStr ''TEXT'', PStr '''', PStr '''', PInt 8, PStr '''', PBool True, PStr '''', PStr ''''],
     [PStr ''county_fips'', PStr ''TEXT'', PStr '''', PStr '''', PInt 8, PStr '''', PBool True, PStr '''', PStr ''''],
     [PStr ''official_permit_number'', PStr ''TEXT'', PStr '''', PStr '''', PInt 8, PStr '''', PBool True, PStr '''', PStr ''''],
     [PStr ''sequence_number'', PStr ''TEXT'', PStr '''', PStr '''', PInt 8, PStr '''', PBool True, PStr '''', PStr ''''],
     [PStr ''application_status'', PStr ''TEXT'', PStr '''', PStr '''', PInt 100, PStr '''', PBool True, PStr '''', PStr ''''],
     [PStr ''rule_code'', PStr ''TEXT'', PStr '''', PStr '''', PInt 100, PStr '''', PBool True, PStr '''', PStr ''''],
     [PStr ''rule_description'', PStr ''TEXT'', PStr '''', PStr '''', PInt 200, PStr '''', PBool True, PStr '''', PStr ''''],
     [PStr ''project_name'', PStr ''TEXT'', PStr '''', PStr '''', PInt 200, PStr '''', PBool True, PStr '''', PStr ''''],
     [PStr ''project_county'', PStr ''TEXT'', PStr '''', PStr '''', PInt 20, PStr '''', PBool True, PStr '''', PStr ''''],
     [PStr ''site_location'', PStr ''TEXT'', PStr '''', PStr '''', PInt 1000, PStr '''', PBool True, PStr '''', PStr ''''],
     [PStr ''expiration_date'', PStr ''DATE'', PStr '''', PStr '''', PStr '''', PStr '''', PBool True, PStr '''', PStr ''''],
     [PStr ''issue_date'', PStr ''DATE'', PStr '''', PStr '''', PStr '''', PStr '''', PBool True, PStr '''', PStr ''''],
     [PStr ''review_date'', PStr ''DATE'', PStr '''', PStr '''', PStr '''', PStr '''', PBool True, PStr '''', PStr ''''],
     [PStr ''legacy_permit_number'', PStr ''TEXT'', PStr '''', PStr '''', PInt 35, PStr '''', PBool True, PStr '''', PStr ''''],
     [PStr ''item_number'', PStr ''DOUBLE'', PStr '''', PStr '''', PStr '''', PStr '''', PBool True, PStr '''', PStr ''''],
     [PStr ''item_type'', PStr ''TEXT'', PStr '''', PStr '''', PInt 100, PStr '''', PBool True, PStr '''', PStr ''''],
     [PStr ''item_stage'', PStr ''TEXT'', PStr '''', PStr '''', PInt 100, PStr '''', PBool True, PStr '''', PStr '''']
   ]"

definition create_databases_erp_site_62_330 :: "'e api \<Rightarrow> 'e comp" where
  "create_databases_erp_site_62_330 api =
     (let fc_erp_site_62_330 = path_join OUTPUT_GEODATABASE FC_NAME_ERP_SITE_62_330 in
      block [
        invoke api (AddMessage (NL @ NL @ ''Creating feature class '' @ FC_NAME_ERP_SITE_62_330)),
        invoke api (CreateFeatureclass_management OUTPUT_GEODATABASE FC_NAME_ERP_SITE_62_330 ''POINT'' UTM_16N_NAD83),
        invoke api (AddMessage (TAB @ ''Adding fields'')),
        add_fields api fc_erp_site_62_330 fields_spec_erp_site_62_330,
        invoke api (AddMessage (TAB @ ''Granting privileges'')),
        invoke api (ChangePrivileges_management fc_erp_site_62_330 ''GIS_READ'' ''GRANT'' ''AS_IS'')
      ])"

subsection \<open>create_databases_erp_site_forestry\<close>

definition fields_spec_erp_site_forestry :: "pytuple list" where
  "fields_spec_erp_site_forestry = [
     [PStr ''site_id'', PStr ''DOUBLE'', PStr '''', PStr '''', PStr '''', PStr '''', PBool True, PStr '''', PStr ''''],
     [PStr ''permit_number'', PStr ''DOUBLE'', PStr '''', PStr '''', PStr '''', PStr '''', PBool True, PStr '''', PStr ''''],
     [PStr ''project_number'', PStr ''TEXT'', PStr '''', PStr '''', PInt 50, PStr '''', PBool True, PStr '''', PStr ''''],
     [PStr ''permit_type'', PStr ''TEXT'', PStr '''', PStr '''', PInt 8, PStr '''', PBool True, PStr '''', PStr ''''],
     [PStr ''county_fips'', PStr ''TEXT'', PStr '''', PStr '''', PInt 8, PStr '''', PBool True, PStr '''', PStr ''''],
     [PStr ''official_permit_number'', PStr ''TEXT'', PStr '''', PStr '''', PInt 8, PStr '''', PBool True, PStr '''', PStr ''''],
     [PStr ''sequence_number'', PStr ''TEXT'', PStr '''', PStr '''', PInt 8, PStr '''', PBool True, PStr '''', PStr ''''],
     [PStr ''application_status'', PStr ''TEXT'', PStr '''', PStr '''', PInt 100, PStr '''', PBool True, PStr '''', PStr ''''],
     [PStr ''rule_code'', PStr ''TEXT'', PStr '''', PStr '''', PInt 100, PStr '''', PBool True, PStr '''', PStr ''''],
     [PStr ''rule_description'', PStr ''TEXT'', PStr '''', PStr '''', PInt 200, PStr '''', PBool True, PStr '''', PStr ''''],
     [PStr ''project_name'', PStr ''TEXT'', PStr '''', PStr '''', PInt 200, PStr '''', PBool True, PStr '''', PStr ''''],
     [PStr ''project_county'', PStr ''TEXT'', PStr '''', PStr '''', PInt 20, PStr '''', PBool True, PStr '''', PStr ''''],
     [PStr ''site_location'', PStr ''TEXT'', PStr '''', PStr '''', PInt 1000, PStr '''', PBool True, PStr '''', PStr ''''],
     [PStr ''expiration_date'', PStr ''DATE'', PStr '''', PStr '''', PStr '''', PStr '''', PBool True, PStr '''', PStr ''''],
     [PStr ''issue_date'', PStr ''DATE'', PStr '''', PStr '''', PStr '''', PStr '''', PBool True, PStr '''', PStr ''''],
     [PStr ''review_date'', PStr ''DATE'', PStr '''', PStr '''', PStr '''', PStr '''', PBool True, PStr '''', PStr ''''],
     [PStr ''legacy_permit_number'', PStr ''TEXT'', PStr '''', PStr '''', PInt 35, PStr '''', PBool True, PStr '''', PStr ''''],
     [PStr ''item_number'', PStr ''DOUBLE'', PStr '''', PStr '''', PStr '''', PStr '''', PBool True, PStr '''', PStr ''''],
     [PStr ''item_type'', PStr ''TEXT'', PStr '''', PStr '''', PInt 100, PStr '''', PBool True, PStr '''', PStr ''''],
     [PStr ''item_stage'', PStr ''TEXT'', PStr '''', PStr '''', PInt 100, PStr '''', PBool True, PStr '''', PStr '''']
   ]"

definition create_databases_erp_site_forestry :: "'e api \<Rightarrow> 'e comp" where
  "create_databases_erp_site_forestry api =
     (let fc_erp_site_forestry = path_join OUTPUT_GEODATABASE FC_NAME_ERP_SITE_FORESTRY in
      block [
        invoke api (AddMessage (NL @ NL @ ''Creating feature class '' @ FC_NAME_ERP_SITE_FORESTRY)),
        invoke api (CreateFeatureclass_management OUTPUT_GEODATABASE FC_NAME_ERP_SITE_FORESTRY ''POINT'' UTM_16N_NAD83),
        invoke api (AddMessage (TAB @ ''Adding fields'')),
        add_fields api fc_erp_site_forestry fields_spec_erp_site_forestry,
        invoke api (AddMessage (TAB @ ''Granting privileges'')),
        invoke api (ChangePrivileges_management fc_erp_site_forestry ''GIS_READ'' ''GRANT'' ''AS_IS'')
      ])"

subsection \<open>create_databases_mssw\<close>

definition fields_spec_mssw :: "pytuple list" where
  "fields_spec_mssw = [
     [PStr ''permit_number'', PStr ''TEXT'', PStr '''', PStr '''', PInt 35, PStr '''', PBool True, PStr '''', PStr ''''],
     [PStr ''appl_first_name'', PStr ''TEXT'', PStr '''', PStr '''', PInt 30, PStr '''', PBool True, PStr '''', PStr ''''],
     [PStr ''appl_last_name'', PStr ''TEXT'', PStr '''', PStr '''', PInt 30, PStr '''', PBool True, PStr '''', PStr ''''],
     [PStr ''applicant_company_name'', PStr ''TEXT'', PStr '''', PStr '''', PInt 150, PStr '''', PBool True, PStr '''', PStr ''''],
     [PStr ''project_name'', PStr ''TEXT'', PStr '''', PStr '''', PInt 200, PStr '''', PBool True, PStr '''', PStr ''''],
     [PStr ''appl_received'', PStr ''DATE'', PStr '''', PStr '''', PStr '''', PStr '''', PBool True, PStr '''', PStr '''']
   ]"

definition create_databases_mssw :: "'e api \<Rightarrow> 'e comp" where
  "create_databases_mssw api =
     (let fc_mssw = path_join OUTPUT_GEODATABASE FC_NAME_MSSW in
      block [
        invoke api (AddMessage (NL @ NL @ ''Creating feature class '' @ FC_NAME_MSSW)),
        invoke api (CreateFeatureclass_management OUTPUT_GEODATABASE FC_NAME_MSSW ''POINT'' UTM_16N_NAD83),
        invoke api (AddMessage (TAB @ ''Adding fields'')),
        add_fields api fc_mssw fields_spec_mssw,
        invoke api (AddMessage (TAB @ ''Granting privileges'')),
        invoke api (ChangePrivileges_management fc_mssw ''GIS_READ'' ''GRANT'' ''AS_IS'')
      ])"

subsection \<open>create_databases_reg_station\<close>

definition fields_spec_reg_station :: "pytuple list" where
  "fields_spec_reg_station = [
     [PStr ''station_id'', PStr ''TEXT'', PStr '''', PStr '''', PInt 50, PStr '''', PBool True, PStr '''', PStr ''''],
     [PStr ''project_number'', PStr ''TEXT'', PStr '''', PStr '''', PInt 50, PStr '''', PBool True, PStr '''', PStr ''''],
     [PStr ''permit_type'', PStr ''TEXT'', PStr '''', PStr '''', PInt 8, PStr '''', PBool True, PStr '''', PStr ''''],
     [PStr ''county_fips'', PStr ''TEXT'', PStr '''', PStr '''', PInt 8, PStr '''', PBool True, PStr '''', PStr ''''],
     [PStr ''official_permit_number'', PStr ''TEXT'', PStr '''', PStr '''', PInt 8, PStr '''', PBool True, PStr '''', PStr ''''],
     [PStr ''sequence_number'', PStr ''TEXT'', PStr '''', PStr '''', PInt 8, PStr '''', PBool True, PStr '''', PStr ''''],
     [PStr ''fluwid'', PStr ''TEXT'', PStr '''', PStr '''', PInt 50, PStr '''', PBool True, PStr '''', PStr ''''],
     [PStr ''station_type'', PStr ''TEXT'', PStr '''', PStr '''', PInt 100, PStr '''', PBool True, PStr '''', PStr ''''],
     [PStr ''monitoring_well_type'', PStr ''TEXT'', PStr '''', PStr '''', PInt 100, PStr '''', PBool True, PStr '''', PStr ''''],
     [PStr ''station_name'', PStr ''TEXT'', PStr '''', PStr '''', PInt 50, PStr '''', PBool True, PStr '''', PStr ''''],
     [PStr ''station_status'', PStr ''TEXT'', PStr '''', PStr '''', PInt 100, PStr '''', PBool True, PStr '''', PStr ''''],
     [PStr ''water_source_type'', PStr ''TEXT'', PStr '''', PStr '''', PInt 100, PStr '''', PBool True, PStr '''', PStr ''''],
     [PStr ''water_source_name'', PStr ''TEXT'', PStr '''', PStr '''', PInt 100, PStr '''', PBool True, PStr '''', PStr ''''],
     [PStr ''meter_type'', PStr ''TEXT'', PStr '''', PStr '''', PInt 100, PStr '''', PBool True, PStr '''', PStr ''''],
     [PStr ''diameter'', PStr ''DOUBLE'', PStr '''', PStr '''', PStr '''', PStr '''', PBool True, PStr '''', PStr ''''],
     [PStr ''casing_depth'', PStr ''DOUBLE'', PStr '''', PStr '''', PStr '''', PStr '''', PBool True, PStr '''', PStr ''''],
     [PStr ''well_depth'', PStr ''DOUBLE'', PStr '''', PStr '''', PStr '''', PStr '''', PBool True, PStr '''', PStr ''''],
     [PStr ''pump_rate'', PStr ''DOUBLE'', PStr '''', PStr '''', PStr '''', PStr '''', PBool True, PStr '''', PStr ''''],
     [PStr ''pumping_report'', PStr ''TEXT'', PStr '''', PStr '''', PInt 7, PStr '''', PBool True, PStr '''', PStr ''''],
     [PStr ''wq_mi'', PStr ''TEXT'', PStr '''', PStr '''', PInt 7, PStr '''', PBool True, PStr '''', PStr ''''],
     [PStr ''wq_lp'', PStr ''TEXT'', PStr '''', PStr '''', PInt 7, PStr '''', PBool True, PStr '''', PStr ''''],
     [PStr ''wl_gw'', PStr ''TEXT'', PStr '''', PStr '''', PInt 7, PStr '''', PBool True, PStr '''', PStr ''''],
     [PStr ''station_county'', PStr ''TEXT'', PStr '''', PStr '''', PInt 20, PStr '''', PBool True, PStr '''', PStr ''''],
     [PStr ''station_location'', PStr ''TEXT'', PStr '''', PStr '''', PInt 1000, PStr '''', PBool True, PStr '''', PStr ''''],
     [PStr ''location_method'', PStr ''TEXT'', PStr '''', PStr '''', PInt 16, PStr '''', PBool True, PStr '''', PStr ''''],
     [PStr ''project_primary_use'', PStr ''TEXT'', PStr '''', PStr '''', PInt 100, PStr '''', PBool True, PStr '''', PStr ''''],
     [PStr ''project_secondary_use'', PStr ''TEXT'', PStr '''', PStr '''', PInt 100, PStr '''', PBool True, PStr '''', PStr ''''],
     [PStr ''water_use_level_1'', PStr ''TEXT'', PStr '''', PStr '''', PInt 100, PStr '''', PBool True, PStr '''', PStr ''''],
     [PStr ''water_use_level_2'', PStr ''TEXT'', PStr '''', PStr '''', PInt 100, PStr '''', PBool True, PStr '''', PStr ''''],
     [PStr ''water_use_level_3'', PStr ''TEXT'', PStr '''', PStr '''', PInt 100, PStr '''', PBool True, PStr '''', PStr ''''],
     [PStr ''water_use_level_4'', PStr ''TEXT'', PStr '''', PStr '''', PInt 100, PStr '''', PBool True, PStr '''', PStr ''''],
     [PStr ''station_allocation_gpd'', PStr ''TEXT'', PStr '''', PStr '''', PInt 100, PStr '''', PBool True, PStr '''', PStr ''''],
     [PStr ''project_allocation_gpd'', PStr ''DOUBLE'', PStr '''', PStr '''', PStr '''', PStr '''', PBool True, PStr '''', PStr ''''],
     [PStr ''project_allocation_monthly'', PStr ''DOUBLE'', PStr '''', PStr '''', PStr '''', PStr '''', PBool True, PStr '''', PStr ''''],
     [PStr ''application_status'', PStr ''TEXT'', PStr '''', PStr '''', PInt 100, PStr '''', PBool True, PStr '''', PStr ''''],
     [PStr ''expiration_date'', PStr ''DATE'', PStr '''', PStr '''', PStr '''', PStr '''', PBool True, PStr '''', PStr ''''],
     [PStr ''owner_company_name'', PStr ''TEXT'', PStr '''', PStr '''', PInt 150, PStr '''', PBool True, PStr '''', PStr ''''],
     [PStr ''owner_first_name'', PStr ''TEXT'', PStr '''', PStr '''', PInt 30, PStr '''', PBool True, PStr '''', PStr ''''],
     [PStr ''owner_last_name'', PStr ''TEXT'', PStr '''', PStr '''', PInt 30, PStr '''', PBool True, PStr '''', PStr ''''],
     [PStr ''legacy_apnum'', PStr ''DOUBLE'', PStr '''', PStr '''', PStr '''', PStr '''', PBool True, PStr '''', PStr ''''],
     [PStr ''legacy_permit_number'', PStr ''TEXT'', PStr '''', PStr '''', PInt 35, PStr '''', PBool True, PStr '''', PStr ''''],
     [PStr ''nwf_id'', PStr ''DOUBLE'', PStr '''', PStr '''', PStr '''', PStr '''', PBool True, PStr '''', PStr ''''],
     [PStr ''wps_permit'', PStr ''TEXT'', PStr '''', PStr '''', PInt 50, PStr '''', PBool True, PStr '''', PStr '''']
   ]"

definition create_databases_reg_station :: "'e api \<Rightarrow> 'e comp" where
  "create_databases_reg_station api =
     (let fc_reg_station = path_join OUTPUT_GEODATABASE FC_NAME_REG_STATION in
      block [
        invoke api (AddMessage (NL @ NL @ ''Creating feature class '' @ FC_NAME_REG_STATION)),
        invoke api (CreateFeatureclass_management OUTPUT_GEODATABASE FC_NAME_REG_STATION ''POINT'' UTM_16N_NAD83),
        invoke api (AddMessage (TAB @ ''Adding fields'')),
        add_fields api fc_reg_station fields_spec_reg_station,
        invoke api (AddMessage (TAB @ ''Creating indexes'')),
        invoke api (AddIndex_management fc_reg_station ''FLUWID'' (FC_NAME_REG_STATION @ ''__I1'')),
        invoke api (AddIndex_management fc_reg_station ''LEGACY_PERMIT_NUMBER'' (FC_NAME_REG_STATION @ ''__I2'')),
        invoke api (AddMessage (TAB @ ''Granting privileges'')),
        invoke api (ChangePrivileges_management fc_reg_station ''GIS_READ'' ''GRANT'' ''AS_IS'')
      ])"

subsection \<open>create_databases_well_inventory\<close>

definition fields_spec_well_inventory :: "pytuple list" where
  "fields_spec_well_inventory = [
     [PStr ''nwf_id'', PStr ''LONG'', PStr '''', PStr '''', PStr '''', PStr '''', PBool True, PStr '''', PStr ''''],
     [PStr ''site_id'', PStr ''TEXT'', PStr '''', PStr '''', PInt 15, PStr '''', PBool True, PStr '''', PStr ''''],
     [PStr ''site_type'', PStr ''TEXT'', PStr '''', PStr '''', PInt 1, PStr '''', PBool True, PStr '''', PStr ''''],
     [PStr ''well_name'', PStr ''TEXT'', PStr '''', PStr '''', PInt 50, PStr '''', PBool True, PStr '''', PStr ''''],
     [PStr ''first_name'', PStr ''TEXT'', PStr '''', PStr '''', PInt 30, PStr '''', PBool True, PStr '''', PStr ''''],
     [PStr ''last_name'', PStr ''TEXT'', PStr '''', PStr '''', PInt 50, PStr '''', PBool True, PStr '''', PStr ''''],
     [PStr ''well_depth'', PStr ''LONG'', PStr '''', PStr '''', PStr '''', PStr '''', PBool True, PStr '''', PStr ''''],
     [PStr ''casing_depth'', PStr ''LONG'', PStr '''', PStr '''', PStr '''', PStr '''', PBool True, PStr '''', PStr ''''],
     [PStr ''use_permit'', PStr ''LONG'', PStr '''', PStr '''', PStr '''', PStr '''', PBool True, PStr '''', PStr ''''],
     [PStr ''cps_permit'', PStr ''TEXT'', PStr '''', PStr '''', PInt 10, PStr '''', PBool True, PStr '''', PStr ''''],
     [PStr ''state_id'', PStr ''TEXT'', PStr '''', PStr '''', PInt 7, PStr '''', PBool True, PStr '''', PStr ''''],
     [PStr ''spcap'', PStr ''DOUBLE'', PStr '''', PStr '''', PStr '''', PStr '''', PBool True, PStr '''', PStr ''''],
     [PStr ''calc_trans'', PStr ''LONG'', PStr '''', PStr '''', PStr '''', PStr '''', PBool True, PStr '''', PStr ''''],
     [PStr ''loc_method'', PStr ''TEXT'', PStr '''', PStr '''', PInt 30, PStr '''', PBool True, PStr '''', PStr '''']
   ]"

definition create_databases_well_inventory :: "'e api \<Rightarrow> 'e comp" where
  "create_databases_well_inventory api =
     (let fc_wi = path_join OUTPUT_GEODATABASE FC_NAME_WI in
      block [
        invoke api (AddMessage (NL @ NL @ ''Creating feature class '' @ FC_NAME_WI)),
        invoke api (CreateFeatureclass_management OUTPUT_GEODATABASE FC_NAME_WI ''POINT'' UTM_16N_NAD83),
        invoke api (AddMessage (TAB @ ''Adding fields'')),
        add_fields api fc_wi fields_spec_well_inventory,
        invoke api (AddMessage (TAB @ ''Creating indexes'')),
        invoke api (AddIndex_management fc_wi ''NWF_ID'' (FC_NAME_WI @ ''__I1'')),
        invoke api (AddIndex_management fc_wi ''STATE_ID'' (FC_NAME_WI @ ''__I2'')),
        invoke api (AddMessage (TAB @ ''Granting privileges'')),
        invoke api (ChangePrivileges_management fc_wi ''GIS_READ'' ''GRANT'' ''AS_IS'')
      ])"

subsection \<open>create_databases_well_permits\<close>

definition fields_spec_well_permits :: "pytuple list" where
  "fields_spec_well_permits = [
     [PStr ''permit_number'', PStr ''TEXT'', PStr '''', PStr '''', PInt 50, PStr '''', PBool True, PStr '''', PStr ''''],
     [PStr ''legacy_permit_number'', PStr ''TEXT'', PStr '''', PStr '''', PInt 35, PStr '''', PBool True, PStr '''', PStr ''''],
     [PStr ''related_permit_1'', PStr ''TEXT'', PStr '''', PStr '''', PInt 50, PStr '''', PBool True, PStr '''', PStr ''''],
     [PStr ''related_permit_2'', PStr ''TEXT'', PStr '''', PStr '''', PInt 50, PStr '''', PBool True, PStr '''', PStr ''''],
     [PStr ''job_type'', PStr ''TEXT'', PStr '''', PStr '''', PInt 100, PStr '''', PBool True, PStr '''', PStr ''''],
     [PStr ''status'', PStr ''TEXT'', PStr '''', PStr '''', PInt 200, PStr '''', PBool True, PStr '''', PStr ''''],
     [PStr ''official_id'', PStr ''LONG'', PStr '''', PStr '''', PStr '''', PStr '''', PBool True, PStr '''', PStr ''''],
     [PStr ''issue_date'', PStr ''DATE'', PStr '''', PStr '''', PStr '''', PStr '''', PBool True, PStr '''', PStr ''''],
     [PStr ''expiration_date'', PStr ''DATE'', PStr '''', PStr '''', PStr '''', PStr '''', PBool True, PStr '''', PStr ''''],
     [PStr ''completion_date'', PStr ''DATE'', PStr '''', PStr '''', PStr '''', PStr '''', PBool True, PStr '''', PStr ''''],
     [PStr ''exemption'', PStr ''TEXT'', PStr '''', PStr '''', PInt 7, PStr '''', PBool True, PStr '''', PStr ''''],
     [PStr ''owner_first'', PStr ''TEXT'', PStr '''', PStr '''', PInt 30, PStr '''', PBool True, PStr '''', PStr ''''],
     [PStr ''owner_last'', PStr ''TEXT'', PStr '''', PStr '''', PInt 30, PStr '''', PBool True, PStr '''', PStr ''''],
     [PStr ''well_use'', PStr ''TEXT'', PStr '''', PStr '''', PInt 100, PStr '''', PBool True, PStr '''', PStr ''''],
     [PStr ''diameter'', PStr ''DOUBLE'', PStr '''', PStr '''', PStr '''', PStr '''', PBool True, PStr '''', PStr ''''],
     [PStr ''appl_well_depth'', PStr ''DOUBLE'', PStr '''', PStr '''', PStr '''', PStr '''', PBool True, PStr '''', PStr ''''],
     [PStr ''appl_casing_depth'', PStr ''DOUBLE'', PStr '''', PStr '''', PStr '''', PStr '''', PBool True, PStr '''', PStr ''''],
     [PStr ''wcr_well_depth'', PStr ''DOUBLE'', PStr '''', PStr '''', PStr '''', PStr '''', PBool True, PStr '''', PStr ''''],
     [PStr ''wcr_casing_depth'', PStr ''DOUBLE'', PStr '''', PStr '''', PStr '''', PStr '''', PBool True, PStr '''', PStr ''''],
     [PStr ''open_hole_from'', PStr ''DOUBLE'', PStr '''', PStr '''', PStr '''', PStr '''', PBool True, PStr '''', PStr ''''],
     [PStr ''open_hole_to'', PStr ''DOUBLE'', PStr '''', PStr '''', PStr '''', PStr '''', PBool True, PStr '''', PStr ''''],
     [PStr ''screen_from'', PStr ''DOUBLE'', PStr '''', PStr '''', PStr '''', PStr '''', PBool True, PStr '''', PStr ''''],
     [PStr ''screen_to'', PStr ''DOUBLE'', PStr '''', PStr '''', PStr '''', PStr '''', PBool True, PStr '''', PStr ''''],
     [PStr ''well_street'', PStr ''TEXT'', PStr '''', PStr '''', PInt 60, PStr '''', PBool True, PStr '''', PStr ''''],
     [PStr ''well_street_2'', PStr ''TEXT'', PStr '''', PStr '''', PInt 50, PStr '''', PBool True, PStr '''', PStr ''''],
     [PStr ''well_city'', PStr ''TEXT'', PStr '''', PStr '''', PInt 30, PStr '''', PBool True, PStr '''', PStr ''''],
     [PStr ''well_county'', PStr ''TEXT'', PStr '''', PStr '''', PInt 20, PStr '''', PBool True, PStr '''', PStr ''''],
     [PStr ''parcel_id'', PStr ''TEXT'', PStr '''', PStr '''', PInt 50, PStr '''', PBool True, PStr '''', PStr ''''],
     [PStr ''latitude'', PStr ''DOUBLE'', PStr '''', PStr '''', PStr '''', PStr '''', PBool True, PStr '''', PStr ''''],
     [PStr ''longitude'', PStr ''DOUBLE'', PStr '''', PStr '''', PStr '''', PStr '''', PBool True, PStr '''', PStr ''''],
     [PStr ''township'', PStr ''TEXT'', PStr '''', PStr '''', PInt 3, PStr '''', PBool True, PStr '''', PStr ''''],
     [PStr ''range'', PStr ''TEXT'', PStr '''', PStr '''', PInt 3, PStr '''', PBool True, PStr '''', PStr ''''],
     [PStr ''section'', PStr ''SHORT'', PStr '''', PStr '''', PStr '''', PStr '''', PBool True, PStr '''', PStr ''''],
     [PStr ''cu_permit'', PStr ''TEXT'', PStr '''', PStr '''', PInt 50, PStr '''', PBool True, PStr '''', PStr ''''],
     [PStr ''fluwid'', PStr ''TEXT'', PStr '''', PStr '''', PInt 50, PStr '''', PBool True, PStr '''', PStr ''''],
     [PStr ''location_method'', PStr ''TEXT'', PStr '''', PStr '''', PInt 16, PStr '''', PBool True, PStr '''', PStr ''''],
     [PStr ''contractor_license'', PStr ''LONG'', PStr '''', PStr '''', PStr '''', PStr '''', PBool True, PStr '''', PStr ''''],
     [PStr ''contractor_name'', PStr ''TEXT'', PStr '''', PStr '''', PInt 70, PStr '''', PBool True, PStr '''', PStr ''''],
     [PStr ''wrca'', PStr ''TEXT'', PStr '''', PStr '''', PInt 7, PStr '''', PBool True, PStr '''', PStr ''''],
     [PStr ''arc'', PStr ''TEXT'', PStr '''', PStr '''', PInt 7, PStr '''', PBool True, PStr '''', PStr ''''],
     [PStr ''grout_line'', PStr ''TEXT'', PStr '''', PStr '''', PInt 100, PStr '''', PBool True, PStr '''', PStr ''''],
     [PStr ''construction_method'', PStr ''TEXT'', PStr '''', PStr '''', PInt 100, PStr '''', PBool True, PStr '''', PStr ''''],
     [PStr ''w62_524'', PStr ''TEXT'', PStr '''', PStr '''', PInt 7, PStr '''', PBool True, PStr '''', PStr ''''],
     [PStr ''stn_id'', PStr ''LONG'', PStr '''', PStr '''', PStr '''', PStr '''', PBool True, PStr '''', PStr '''']
   ]"

definition create_databases_well_permits :: "'e api \<Rightarrow> 'e comp" where
  "create_databases_well_permits api =
     (let fc_wps = path_join OUTPUT_GEODATABASE FC_NAME_WPS in
      block [
        invoke api (AddMessage (NL @ NL @ ''Creating feature class '' @ FC_NAME_WPS)),
        invoke api (CreateFeatureclass_management OUTPUT_GEODATABASE FC_NAME_WPS ''POINT'' UTM_16N_NAD83),
        invoke api (AddMessage (TAB @ ''Adding fields'')),
        add_fields api fc_wps fields_spec_well_permits,
        invoke api (AddMessage (TAB @ ''Creating indexes'')),
        invoke api (AddIndex_management fc_wps ''FLUWID'' (FC_NAME_WPS @ ''__I1'')),
        invoke api (AddIndex_management fc_wps ''PERMIT_NUMBER'' (FC_NAME_WPS @ ''__I2'')),
        invoke api (AddMessage (TAB @ ''Granting privileges'')),
        invoke api (ChangePrivileges_management fc_wps ''GIS_READ'' ''GRANT'' ''AS_IS'')
      ])"

subsection \<open>create_databases_wup_permitted\<close>

definition fields_spec_wup_permitted :: "pytuple list" where
  "fields_spec_wup_permitted = [
     [PStr ''permit_number'', PStr ''LONG'', PStr '''', PStr '''', PStr '''', PStr '''', PBool True, PStr '''', PStr ''''],
     [PStr ''owner_first_name'', PStr ''TEXT'', PStr '''', PStr '''', PInt 20, PStr '''', PBool True, PStr '''', PStr ''''],
     [PStr ''owner_last_name'', PStr ''TEXT'', PStr '''', PStr '''', PInt 40, PStr '''', PBool True, PStr '''', PStr ''''],
     [PStr ''project_name'', PStr ''TEXT'', PStr '''', PStr '''', PInt 80, PStr '''', PBool True, PStr '''', PStr ''''],
     [PStr ''issue_date'', PStr ''DATE'', PStr '''', PStr '''', PStr '''', PStr '''', PBool True, PStr '''', PStr ''''],
     [PStr ''expiration_date'', PStr ''DATE'', PStr '''', PStr '''', PStr '''', PStr '''', PBool True, PStr '''', PStr ''''],
     [PStr ''rule_type'', PStr ''TEXT'', PStr '''', PStr '''', PInt 15, PStr '''', PBool True, PStr '''', PStr '''']
   ]"

definition create_databases_wup_permitted :: "'e api \<Rightarrow> 'e comp" where
  "create_databases_wup_permitted api =
     (let fc_wup = path_join OUTPUT_GEODATABASE FC_NAME_WUP_PERMITTED in
      block [
        invoke api (AddMessage (NL @ NL @ ''Creating feature class '' @ FC_NAME_WUP_PERMITTED)),
        invoke api (CreateFeatureclass_management OUTPUT_GEODATABASE FC_NAME_WUP_PERMITTED ''POINT'' UTM_16N_NAD83),
        invoke api (AddMessage (TAB @ ''Adding fields'')),
        add_fields api fc_wup fields_spec_wup_permitted,
        invoke api (AddMessage (TAB @ ''Granting privileges'')),
        invoke api (ChangePrivileges_management fc_wup ''GIS_READ'' ''GRANT'' ''AS_IS'')
      ])"

subsection \<open>create_databases_wup_surface\<close>

definition fields_spec_wup_surface :: "pytuple list" where
  "fields_spec_wup_surface = [
     [PStr ''cu_apnum'', PStr ''DOUBLE'', PStr '''', PStr '''', PStr '''', PStr '''', PBool True, PStr '''', PStr ''''],
     [PStr ''cu_permit'', PStr ''TEXT'', PStr '''', PStr '''', PInt 35, PStr '''', PBool True, PStr '''', PStr ''''],
     [PStr ''ownerlast'', PStr ''TEXT'', PStr '''', PStr '''', PInt 30, PStr '''', PBool True, PStr '''', PStr ''''],
     [PStr ''ownerfirst'', PStr ''TEXT'', PStr '''', PStr '''', PInt 30, PStr '''', PBool True, PStr '''', PStr ''''],
     [PStr ''address'', PStr ''TEXT'', PStr '''', PStr '''', PInt 500, PStr '''', PBool True, PStr '''', PStr ''''],
     [PStr ''pmtmaxmonthly'', PStr ''DOUBLE'', PStr '''', PStr '''', PStr '''', PStr '''', PBool True, PStr '''', PStr ''''],
     [PStr ''pmtavggpd'', PStr ''DOUBLE'', PStr '''', PStr '''', PStr '''', PStr '''', PBool True, PStr '''', PStr ''''],
     [PStr ''primaryuse'', PStr ''TEXT'', PStr '''', PStr '''', PInt 100, PStr '''', PBool True, PStr '''', PStr ''''],
     [PStr ''other_uses'', PStr ''TEXT'', PStr '''', PStr '''', PInt 100, PStr '''', PBool True, PStr '''', PStr ''''],
     [PStr ''expire_date'', PStr ''DATE'', PStr '''', PStr '''', PStr '''', PStr '''', PBool True, PStr '''', PStr ''''],
     [PStr ''swstateid'', PStr ''TEXT'', PStr '''', PStr '''', PInt 50, PStr '''', PBool True, PStr '''', PStr ''''],
     [PStr ''swkey'', PStr ''DOUBLE'', PStr '''', PStr '''', PStr '''', PStr '''', PBool True, PStr '''', PStr ''''],
     [PStr ''loc_method'', PStr ''TEXT'', PStr '''', PStr '''', PInt 100, PStr '''', PBool True, PStr '''', PStr '''']
   ]"

definition create_databases_wup_surface :: "'e api \<Rightarrow> 'e comp" where
  "create_databases_wup_surface api =
     (let fc_wup_surf = path_join OUTPUT_GEODATABASE FC_NAME_WUP_SURFACE in
      block [
        invoke api (AddMessage (NL @ NL @ ''Creating feature class '' @ FC_NAME_WUP_SURFACE)),
        invoke api (CreateFeatureclass_management OUTPUT_GEODATABASE FC_NAME_WUP_SURFACE ''POINT'' UTM_16N_NAD83),
        invoke api (AddMessage (TAB @ ''Adding fields'')),
        add_fields api fc_wup_surf fields_spec_wup_surface,
        invoke api (AddMessage (TAB @ ''Granting privileges'')),
        invoke api (ChangePrivileges_management fc_wup_surf ''GIS_READ'' ''GRANT'' ''AS_IS'')
      ])"

subsection \<open>create_databases_wup_wells\<close>

definition fields_spec_wup_wells :: "pytuple list" where
  "fields_spec_wup_wells = [
     [PStr ''cu_apnum'', PStr ''DOUBLE'', PStr '''', PStr '''', PStr '''', PStr '''', PBool True, PStr '''', PStr ''''],
     [PStr ''cu_permit'', PStr ''TEXT'', PStr '''', PStr '''', PInt 35, PStr '''', PBool True, PStr '''', PStr ''''],
     [PStr ''ownerlast'', PStr ''TEXT'', PStr '''', PStr '''', PInt 30, PStr '''', PBool True, PStr '''', PStr ''''],
     [PStr ''ownerfirst'', PStr ''TEXT'', PStr '''', PStr '''', PInt 30, PStr '''', PBool True, PStr '''', PStr ''''],
     [PStr ''address'', PStr ''TEXT'', PStr '''', PStr '''', PInt 500, PStr '''', PBool True, PStr '''', PStr ''''],
     [PStr ''diameter'', PStr ''DOUBLE'', PStr '''', PStr '''', PStr '''', PStr '''', PBool True, PStr '''', PStr ''''],
     [PStr ''pmtmaxgpd'', PStr ''DOUBLE'', PStr '''', PStr '''', PStr '''', PStr '''', PBool True, PStr '''', PStr ''''],
     [PStr ''pmtavggpd'', PStr ''DOUBLE'', PStr '''', PStr '''', PStr '''', PStr '''', PBool True, PStr '''', PStr ''''],
     [PStr ''primaryuse'', PStr ''TEXT'', PStr '''', PStr '''', PInt 100, PStr '''', PBool True, PStr '''', PStr ''''],
     [PStr ''other_uses'', PStr ''TEXT'', PStr '''', PStr '''', PInt 100, PStr '''', PBool True, PStr '''', PStr ''''],
     [PStr ''expire_date'', PStr ''DATE'', PStr '''', PStr '''', PStr '''', PStr '''', PBool True, PStr '''', PStr ''''],
     [PStr ''fluwid'', PStr ''TEXT'', PStr '''', PStr '''', PInt 50, PStr '''', PBool True, PStr '''', PStr ''''],
     [PStr ''wps_permit'', PStr ''TEXT'', PStr '''', PStr '''', PInt 10, PStr '''', PBool True, PStr '''', PStr ''''],
     [PStr ''nwf_id'', PStr ''DOUBLE'', PStr '''', PStr '''', PStr '''', PStr '''', PBool True, PStr '''', PStr ''''],
     [PStr ''well_key'', PStr ''DOUBLE'', PStr '''', PStr '''', PStr '''', PStr '''', PBool True, PStr '''', PStr ''''],
     [PStr ''loc_method'', PStr ''TEXT'', PStr '''', PStr '''', PInt 100, PStr '''', PBool True, PStr '''', PStr '''']
   ]"

definition create_databases_wup_wells :: "'e api \<Rightarrow> 'e comp" where
  "create_databases_wup_wells api =
     (let fc_wup_wells = path_join OUTPUT_GEODATABASE FC_NAME_WUP_WELLS in
      block [
        invoke api (AddMessage (NL @ NL @ ''Creating feature class '' @ FC_NAME_WUP_WELLS)),
        invoke api (CreateFeatureclass_management OUTPUT_GEODATABASE FC_NAME_WUP_WELLS ''POINT'' UTM_16N_NAD83),
        invoke api (AddMessage (TAB @ ''Adding fields'')),
        add_fields api fc_wup_wells fields_spec_wup_wells,
        invoke api (AddMessage (TAB @ ''Granting privileges'')),
        invoke api (ChangePrivileges_management fc_wup_wells ''GIS_READ'' ''GRANT'' ''AS_IS'')
      ])"

section \<open>Main\<close>

definition main :: "'e api \<Rightarrow> 'e comp" where
  "main api =
     block [
       create_databases_well_permits api,
       invoke api (AddMessage NL),
       invoke api (AddWarning ''************************************************************''),
       invoke api (AddWarning ''REMINDER: Manually set feature extent to district boundary''),
       invoke api (AddWarning ''          for new feature classes''),
       invoke api (AddWarning ''REMINDER: Manually import metadata from template file geodatabase''),
       invoke api (AddWarning ''************************************************************''),
       invoke api (AddMessage NL)
     ]"

section \<open>The functions of the module, by name\<close>

text \<open>
  The thirteen feature class creation functions the file defines, in the order of their
  definitions, each with the name constant, the \<open>fields_spec\<close> list and the body it has
  in the source.
\<close>

datatype creation_function =
    Create_databases_erp
  | Create_databases_erp_site
  | Create_databases_erp_site_40a_4
  | Create_databases_erp_site_40a_44
  | Create_databases_erp_site_62_330
  | Create_databases_erp_site_forestry
  | Create_databases_mssw
  | Create_databases_reg_station
  | Create_databases_well_inventory
  | Create_databases_well_permits
  | Create_databases_wup_permitted
  | Create_databases_wup_surface
  | Create_databases_wup_wells

fun run :: "creation_function \<Rightarrow> 'e api \<Rightarrow> 'e comp" where
  "run Create_databases_erp = create_databases_erp"
| "run Create_databases_erp_site = create_databases_erp_site"
| "run Create_databases_erp_site_40a_4 = create_databases_erp_site_40a_4"
| "run Create_databases_erp_site_40a_44 = create_databases_erp_site_40a_44"
| "run Create_databases_erp_site_62_330 = create_databases_erp_site_62_330"
| "run Create_databases_erp_site_forestry = create_databases_erp_site_forestry"
| "run Create_databases_mssw = create_databases_mssw"
| "run Create_databases_reg_station = create_databases_reg_station"
| "run Create_databases_well_inventory = create_databases_well_inventory"
| "run Create_databases_well_permits = create_databases_well_permits"
| "run Create_databases_wup_permitted = create_databases_wup_permitted"
| "run Create_databases_wup_surface = create_databases_wup_surface"
| "run Create_databases_wup_wells = create_databases_wup_wells"

fun FC_NAME_of :: "creation_function \<Rightarrow> string" where
  "FC_NAME_of Create_databases_erp = FC_NAME_ERP"
| "FC_NAME_of Create_databases_erp_site = FC_NAME_ERP_SITE"
| "FC_NAME_of Create_databases_erp_site_40a_4 = FC_NAME_ERP_SITE_40A_4"
| "FC_NAME_of Create_databases_erp_site_40a_44 = FC_NAME_ERP_SITE_40A_44"
| "FC_NAME_of Create_databases_erp_site_62_330 = FC_NAME_ERP_SITE_62_330"
| "FC_NAME_of Create_databases_erp_site_forestry = FC_NAME_ERP_SITE_FORESTRY"
| "FC_NAME_of Create_databases_mssw = FC_NAME_MSSW"
| "FC_NAME_of Create_databases_reg_station = FC_NAME_REG_STATION"
| "FC_NAME_of Create_databases_well_inventory = FC_NAME_WI"
| "FC_NAME_of Create_databases_well_permits = FC_NAME_WPS"
| "FC_NAME_of Create_databases_wup_permitted = FC_NAME_WUP_PERMITTED"
| "FC_NAME_of Create_databases_wup_surface = FC_NAME_WUP_SURFACE"
| "FC_NAME_of Create_databases_wup_wells = FC_NAME_WUP_WELLS"

fun fields_spec_of :: "creation_function \<Rightarrow> pytuple list" where
  "fields_spec_of Create_databases_erp = fields_spec_erp"
| "fields_spec_of Create_databases_erp_site = fields_spec_erp_site"
| "fields_spec_of Create_databases_erp_site_40a_4 = fields_spec_erp_site_40a_4"
| "fields_spec_of Create_databases_erp_site_40a_44 = fields_spec_erp_site_40a_44"
| "fields_spec_of Create_databases_erp_site_62_330 = fields_spec_erp_site_62_330"
| "fields_spec_of Create_databases_erp_site_forestry = fields_spec_erp_site_forestry"
| "fields_spec_of Create_databases_mssw = fields_spec_mssw"
| "fields_spec_of Create_databases_reg_station = fields_spec_reg_station"
| "fields_spec_of Create_databases_well_inventory = fields_spec_well_inventory"
| "fields_spec_of Create_databases_well_permits = fields_spec_well_permits"
| "fields_spec_of Create_databases_wup_permitted = fields_spec_wup_permitted"
| "fields_spec_of Create_databases_wup_surface = fields_spec_wup_surface"
| "fields_spec_of Create_databases_wup_wells = fields_spec_wup_wells"

text \<open>The path of the feature class a function works on.\<close>

definition dataset :: "creation_function \<Rightarrow> string" where
  "dataset p = path_join OUTPUT_GEODATABASE (FC_NAME_of p)"


section \<open>Runs and the calls they issue\<close>

text \<open>A platform on which every call returns.\<close>

definition never_fails :: "'e api" where
  "never_fails h c = None"

text \<open>The calls a piece of the script issues, from the start, when no call fails.\<close>

definition emitted :: "(unit api \<Rightarrow> unit comp) \<Rightarrow> call list" where
  "emitted f = fst (f never_fails [])"

text \<open>A list of calls issued one after the other, up to the first that fails.\<close>

definition exec :: "'e api \<Rightarrow> call list \<Rightarrow> 'e comp" where
  "exec api cs = block (map (invoke api) cs)"

fun is_message :: "call \<Rightarrow> bool" where
  "is_message (AddMessage s) = True"
| "is_message (AddWarning s) = True"
| "is_message c = False"

fun is_CreateFeatureclass :: "call \<Rightarrow> bool" where
  "is_CreateFeatureclass (CreateFeatureclass_management a b c d) = True"
| "is_CreateFeatureclass c = False"

fun is_AddField :: "call \<Rightarrow> bool" where
  "is_AddField (AddField_management t a0 a1 a2 a3 a4 a5 a6 a7 a8) = True"
| "is_AddField c = False"

fun is_AddIndex :: "call \<Rightarrow> bool" where
  "is_AddIndex (AddIndex_management t f n) = True"
| "is_AddIndex c = False"

fun is_ChangePrivileges :: "call \<Rightarrow> bool" where
  "is_ChangePrivileges (ChangePrivileges_management d u v e) = True"
| "is_ChangePrivileges c = False"

text \<open>The geodatabase operations among the calls: all but the progress messages.\<close>

definition geodatabase_operations :: "call list \<Rightarrow> call list" where
  "geodatabase_operations cs = filter (\<lambda>c. \<not> is_message c) cs"

text \<open>
  The two calls one pass of the loop of \<open>add_fields\<close> issues for a tuple that has its
  nine components.
\<close>

definition field_calls :: "string \<Rightarrow> pytuple \<Rightarrow> call list" where
  "field_calls table fs =
     [AddMessage (TAB @ TAB @ ''Adding '' @ py_format (fs ! 0)),
      AddField_management table
        (fs ! 0) (fs ! 1) (fs ! 2) (fs ! 3) (fs ! 4) (fs ! 5) (fs ! 6) (fs ! 7) (fs ! 8)]"

text \<open>
  What a run may end in, read along the calls \<open>cs\<close> it issued after \<open>h\<close>: a call that
  returned is followed by the rest; a call that raised \<open>e\<close> is the last one issued and
  the run ends by \<open>e\<close>; after the last call the run ended normally or by an IndexError
  of the script's own.
\<close>

fun propagated :: "'e api \<Rightarrow> call list \<Rightarrow> call list \<Rightarrow> 'e exn option \<Rightarrow> bool" where
  "propagated api h [] r = (r = None \<or> r = Some IndexError)"
| "propagated api h (c # cs) r =
     (case api h c of
        None \<Rightarrow> propagated api (h @ [c]) cs r
      | Some e \<Rightarrow> cs = [] \<and> r = Some (ApiError e))"

text \<open>A platform on which every index creation fails, and nothing else does.\<close>

definition index_fails :: "string api" where
  "index_fails h c = (if is_AddIndex c then Some ''ERROR 000464'' else None)"

text \<open>
  The sequence of calls of each creation function, written out once; \<open>run_script\<close>
  below proves that running the function issues exactly these calls, in this order, up to
  the first that fails.
\<close>

definition script :: "creation_function \<Rightarrow> call list" where
  "script p =
     [AddMessage (NL @ NL @ ''Creating feature class '' @ FC_NAME_of p),
      CreateFeatureclass_management OUTPUT_GEODATABASE (FC_NAME_of p) ''POINT'' UTM_16N_NAD83,
      AddMessage (TAB @ ''Adding fields'')]
     @ concat (map (field_calls (dataset p)) (fields_spec_of p))
     @ (case p of
          Create_databases_reg_station \<Rightarrow>
            [AddMessage (TAB @ ''Creating indexes''),
             AddIndex_management (dataset p) ''FLUWID'' (FC_NAME_of p @ ''__I1''),
             AddIndex_management (dataset p) ''LEGACY_PERMIT_NUMBER'' (FC_NAME_of p @ ''__I2'')]
        | Create_databases_well_inventory \<Rightarrow>
            [AddMessage (TAB @ ''Creating indexes''),
             AddIndex_management (dataset p) ''NWF_ID'' (FC_NAME_of p @ ''__I1''),
             AddIndex_management (dataset p) ''STATE_ID'' (FC_NAME_of p @ ''__I2'')]
        | Create_databases_well_permits \<Rightarrow>
            [AddMessage (TAB @ ''Creating indexes''),
             AddIndex_management (dataset p) ''FLUWID'' (FC_NAME_of p @ ''__I1''),
             AddIndex_management (dataset p) ''PERMIT_NUMBER'' (FC_NAME_of p @ ''__I2'')]
        | _ \<Rightarrow> [])
     @ [AddMessage (TAB @ ''Granting privileges''),
        ChangePrivileges_management (dataset p) ''GIS_READ'' ''GRANT'' ''AS_IS'']"

text \<open>The reminder that \<open>main\<close> displays after the feature classes are created.\<close>

definition reminder :: "call list" where
  "reminder =
     [AddMessage NL,
      AddWarning ''************************************************************'',
      AddWarning ''REMINDER: Manually set feature extent to district boundary'',
      AddWarning ''          for new feature classes'',
      AddWarning ''REMINDER: Manually import metadata from template file geodatabase'',
      AddWarning ''************************************************************'',
      AddMessage NL]"

text \<open>
  A piece of the script propagates the platform's errors when, from any start, what it
  issues and how it ends are related by \<open>propagated\<close>.
\<close>

definition propagates :: "'e api \<Rightarrow> 'e comp \<Rightarrow> bool" where
  "propagates api m =
     (\<forall>h. \<exists>cs. fst (m h) = h @ cs \<and> propagated api h cs (snd (m h)))"


section \<open>The platform's privilege table\<close>

text \<open>
  The platform is not part of the repository. Its privilege table is modelled here as the
  keywords of \<open>ChangePrivileges_management\<close> describe it: for a dataset and a user, whether
  the user may view and may edit the dataset. \<open>AS_IS\<close> leaves a privilege as it is,
  \<open>GRANT\<close> gives it, \<open>REVOKE\<close> takes it away; editing needs viewing, so granting edit
  grants view and revoking view revokes edit. No other call of the script touches the
  table.
\<close>

type_synonym privileges = "string \<times> string \<Rightarrow> bool \<times> bool"

definition ChangePrivileges_effect :: "string \<Rightarrow> string \<Rightarrow> bool \<times> bool \<Rightarrow> bool \<times> bool" where
  "ChangePrivileges_effect View Edit pr =
     (let viewed =
            (if View = ''GRANT'' then (True, snd pr)
             else if View = ''REVOKE'' then (False, False)
             else pr)
      in if Edit = ''GRANT'' then (True, True)
         else if Edit = ''REVOKE'' then (fst viewed, False)
         else viewed)"

fun privileges_after :: "privileges \<Rightarrow> call \<Rightarrow> privileges" where
  "privileges_after acl (ChangePrivileges_management d u v e) =
     acl((d, u) := ChangePrivileges_effect v e (acl (d, u)))"
| "privileges_after acl c = acl"


section \<open>Sequences of calls\<close>

lemma exec_Nil: "exec api [] h = (h, None)"
  by (simp add: exec_def)

lemma exec_Cons:
  "exec api (c # cs) h =
     (case api h c of
        None \<Rightarrow> exec api cs (h @ [c])
      | Some e \<Rightarrow> (h @ [c], Some (ApiError e)))"
  by (simp add: exec_def invoke_def split: option.split)

lemma block_append:
  "block (ms @ ns) h =
     (case block ms h of (h', None) \<Rightarrow> block ns h' | (h', Some x) \<Rightarrow> (h', Some x))"
  by (induction ms arbitrary: h) (auto split: prod.splits option.splits)

lemma exec_append:
  "exec api (xs @ ys) h =
     (case exec api xs h of (h', None) \<Rightarrow> exec api ys h' | (h', Some x) \<Rightarrow> (h', Some x))"
  unfolding exec_def map_append by (rule block_append)

lemma invoke_exec: "invoke api c = exec api [c]"
  by (rule ext) (simp add: exec_def split: prod.splits option.splits)

lemma block_exec_exec: "block (exec api xs # exec api ys # ms) = block (exec api (xs @ ys) # ms)"
  by (rule ext) (simp add: exec_append split: prod.splits option.splits)

lemma block_exec_single: "block [exec api xs] = exec api xs"
  by (rule ext) (simp split: prod.splits option.splits)

lemma exec_never_fails: "exec never_fails cs h = (h @ cs, None)"
  by (induction cs arbitrary: h) (simp_all add: exec_Nil exec_Cons never_fails_def)

lemma exec_no_IndexError: "snd (exec api cs h) \<noteq> Some IndexError"
  by (induction cs arbitrary: h) (simp_all add: exec_Nil exec_Cons split: option.split)

lemma exec_take: "\<exists>n\<le>length cs. fst (exec api cs h) = h @ take n cs"
proof (induction cs arbitrary: h)
  case Nil
  then show ?case by (simp add: exec_Nil)
next
  case (Cons c cs)
  show ?case
  proof (cases "api h c")
    case None
    from Cons.IH [of "h @ [c]"] obtain n
      where "n \<le> length cs" and "fst (exec api cs (h @ [c])) = (h @ [c]) @ take n cs"
      by blast
    with None have "Suc n \<le> length (c # cs) \<and> fst (exec api (c # cs) h) = h @ take (Suc n) (c # cs)"
      by (simp add: exec_Cons)
    then show ?thesis by blast
  next
    case (Some e)
    then have "Suc 0 \<le> length (c # cs) \<and> fst (exec api (c # cs) h) = h @ take (Suc 0) (c # cs)"
      by (simp add: exec_Cons)
    then show ?thesis by blast
  qed
qed

lemma exec_completes: "snd (exec api cs h) = None \<Longrightarrow> fst (exec api cs h) = h @ cs"
  by (induction cs arbitrary: h) (simp_all add: exec_Nil exec_Cons split: option.splits)

lemma exec_index_fails:
  "filter is_AddIndex cs = [] \<Longrightarrow> exec index_fails cs h = (h @ cs, None)"
proof (induction cs arbitrary: h)
  case Nil
  then show ?case by (simp add: exec_Nil)
next
  case (Cons c cs)
  then have "\<not> is_AddIndex c" and "filter is_AddIndex cs = []"
    by (simp_all split: if_splits)
  with Cons.IH [of "h @ [c]"] show ?case
    by (simp add: exec_Cons index_fails_def)
qed


section \<open>The loop of \<open>add_fields\<close>\<close>

lemma getitem_in_range: "i < 9 \<Longrightarrow> 9 \<le> length t \<Longrightarrow> getitem t i = Some (t ! i)"
  by (simp add: getitem_def)

lemma AddField_call_wf:
  "9 \<le> length fs \<Longrightarrow>
   AddField_call table fs =
     Some (AddField_management table
       (fs ! 0) (fs ! 1) (fs ! 2) (fs ! 3) (fs ! 4) (fs ! 5) (fs ! 6) (fs ! 7) (fs ! 8))"
  by (simp add: AddField_call_def getitem_in_range)

lemma add_fields_body_wf:
  "9 \<le> length fs \<Longrightarrow> add_fields_body api table fs = exec api (field_calls table fs)"
  by (simp add: add_fields_body_def AddField_call_wf getitem_in_range field_calls_def
      invoke_exec block_exec_exec block_exec_single)

lemma add_fields_exec:
  "\<forall>fs\<in>set specs. 9 \<le> length fs \<Longrightarrow>
   add_fields api table specs h = exec api (concat (map (field_calls table) specs)) h"
  by (induction specs arbitrary: h)
     (simp_all add: exec_Nil add_fields_body_wf exec_append)

lemma add_fields_exec_fun:
  "\<forall>fs\<in>set specs. 9 \<le> length fs \<Longrightarrow>
   add_fields api table specs = exec api (concat (map (field_calls table) specs))"
  by (rule ext) (rule add_fields_exec)

lemma filter_field_calls:
  "filter (\<lambda>c. \<not> is_message c) (concat (map (field_calls t) specs)) =
     map (\<lambda>fs. AddField_management t
       (fs ! 0) (fs ! 1) (fs ! 2) (fs ! 3) (fs ! 4) (fs ! 5) (fs ! 6) (fs ! 7) (fs ! 8)) specs"
  by (induction specs) (simp_all add: field_calls_def)

lemma no_index_in_field_calls:
  "filter is_AddIndex (concat (map (field_calls t) specs)) = []"
  by (induction specs) (simp_all add: field_calls_def)

lemma no_create_in_field_calls:
  "filter is_CreateFeatureclass (concat (map (field_calls t) specs)) = []"
  by (induction specs) (simp_all add: field_calls_def)

lemma no_grant_in_field_calls:
  "filter is_ChangePrivileges (concat (map (field_calls t) specs)) = []"
  by (induction specs) (simp_all add: field_calls_def)


section \<open>The field specifications of the script\<close>

lemmas fields_spec_defs =
  fields_spec_erp_def fields_spec_erp_site_def fields_spec_erp_site_40a_4_def
  fields_spec_erp_site_40a_44_def fields_spec_erp_site_62_330_def
  fields_spec_erp_site_forestry_def fields_spec_mssw_def fields_spec_reg_station_def
  fields_spec_well_inventory_def fields_spec_well_permits_def
  fields_spec_wup_permitted_def fields_spec_wup_surface_def fields_spec_wup_wells_def

lemmas FC_NAME_defs =
  FC_NAME_ERP_def FC_NAME_ERP_SITE_def FC_NAME_ERP_SITE_40A_4_def
  FC_NAME_ERP_SITE_40A_44_def FC_NAME_ERP_SITE_62_330_def FC_NAME_ERP_SITE_FORESTRY_def
  FC_NAME_MSSW_def FC_NAME_REG_STATION_def FC_NAME_WI_def FC_NAME_WPS_def
  FC_NAME_WUP_PERMITTED_def FC_NAME_WUP_SURFACE_def FC_NAME_WUP_WELLS_def

lemma fields_spec_lengths: "\<forall>fs\<in>set (fields_spec_of p). length fs = 9"
  by (cases p) (simp_all add: fields_spec_defs)

lemma fields_spec_wf: "\<forall>fs\<in>set (fields_spec_of p). 9 \<le> length fs"
  using fields_spec_lengths [of p] by simp


section \<open>Every creation function issues its script\<close>

declare run.simps [simp del]

lemmas run_script_simps =
  run.simps Let_def dataset_def script_def invoke_exec add_fields_exec_fun
  block_exec_exec block_exec_single

lemma run_script: "run p api = exec api (script p)"
proof (cases p)
  case Create_databases_erp
  then show ?thesis
    using fields_spec_wf [of p] by (simp add: create_databases_erp_def run_script_simps)
next
  case Create_databases_erp_site
  then show ?thesis
    using fields_spec_wf [of p] by (simp add: create_databases_erp_site_def run_script_simps)
next
  case Create_databases_erp_site_40a_4
  then show ?thesis
    using fields_spec_wf [of p]
    by (simp add: create_databases_erp_site_40a_4_def run_script_simps)
next
  case Create_databases_erp_site_40a_44
  then show ?thesis
    using fields_spec_wf [of p]
    by (simp add: create_databases_erp_site_40a_44_def run_script_simps)
next
  case Create_databases_erp_site_62_330
  then show ?thesis
    using fields_spec_wf [of p]
    by (simp add: create_databases_erp_site_62_330_def run_script_simps)
next
  case Create_databases_erp_site_forestry
  then show ?thesis
    using fields_spec_wf [of p]
    by (simp add: create_databases_erp_site_forestry_def run_script_simps)
next
  case Create_databases_mssw
  then show ?thesis
    using fields_spec_wf [of p] by (simp add: create_databases_mssw_def run_script_simps)
next
  case Create_databases_reg_station
  then show ?thesis
    using fields_spec_wf [of p]
    by (simp add: create_databases_reg_station_def run_script_simps)
next
  case Create_databases_well_inventory
  then show ?thesis
    using fields_spec_wf [of p]
    by (simp add: create_databases_well_inventory_def run_script_simps)
next
  case Create_databases_well_permits
  then show ?thesis
    using fields_spec_wf [of p]
    by (simp add: create_databases_well_permits_def run_script_simps)
next
  case Create_databases_wup_permitted
  then show ?thesis
    using fields_spec_wf [of p]
    by (simp add: create_databases_wup_permitted_def run_script_simps)
next
  case Create_databases_wup_surface
  then show ?thesis
    using fields_spec_wf [of p]
    by (simp add: create_databases_wup_surface_def run_script_simps)
next
  case Create_databases_wup_wells
  then show ?thesis
    using fields_spec_wf [of p]
    by (simp add: create_databases_wup_wells_def run_script_simps)
qed

lemma emitted_run: "emitted (run p) = script p"
  by (simp add: emitted_def run_script exec_never_fails)

lemma run_exec: "run p api = exec api (emitted (run p))"
  by (simp add: emitted_run run_script)

lemma script_one_create:
  "filter is_CreateFeatureclass (script p) =
     [CreateFeatureclass_management OUTPUT_GEODATABASE (FC_NAME_of p) ''POINT'' UTM_16N_NAD83]"
  unfolding script_def by (cases p) (simp_all add: no_create_in_field_calls)

lemma script_one_grant:
  "filter is_ChangePrivileges (script p) =
     [ChangePrivileges_management (dataset p) ''GIS_READ'' ''GRANT'' ''AS_IS'']"
  unfolding script_def by (cases p) (simp_all add: no_grant_in_field_calls)

lemma script_indexes:
  "filter is_AddIndex (script p) =
     (if p = Create_databases_reg_station then
        [AddIndex_management (dataset p) ''FLUWID'' (FC_NAME_of p @ ''__I1''),
         AddIndex_management (dataset p) ''LEGACY_PERMIT_NUMBER'' (FC_NAME_of p @ ''__I2'')]
      else if p = Create_databases_well_inventory then
        [AddIndex_management (dataset p) ''NWF_ID'' (FC_NAME_of p @ ''__I1''),
         AddIndex_management (dataset p) ''STATE_ID'' (FC_NAME_of p @ ''__I2'')]
      else if p = Create_databases_well_permits then
        [AddIndex_management (dataset p) ''FLUWID'' (FC_NAME_of p @ ''__I1''),
         AddIndex_management (dataset p) ''PERMIT_NUMBER'' (FC_NAME_of p @ ''__I2'')]
      else [])"
  unfolding script_def by (cases p) (simp_all add: no_index_in_field_calls)

lemma script_operations:
  "geodatabase_operations (script p) =
     [CreateFeatureclass_management OUTPUT_GEODATABASE (FC_NAME_of p) ''POINT'' UTM_16N_NAD83]
     @ map (\<lambda>fs. AddField_management (dataset p)
         (fs ! 0) (fs ! 1) (fs ! 2) (fs ! 3) (fs ! 4) (fs ! 5) (fs ! 6) (fs ! 7) (fs ! 8))
       (fields_spec_of p)
     @ filter is_AddIndex (script p)
     @ [ChangePrivileges_management (dataset p) ''GIS_READ'' ''GRANT'' ''AS_IS'']"
  unfolding script_def geodatabase_operations_def
  by (cases p) (simp_all add: filter_field_calls no_index_in_field_calls)

lemma script_last:
  "last (script p) = ChangePrivileges_management (dataset p) ''GIS_READ'' ''GRANT'' ''AS_IS''"
  by (simp add: script_def)

lemma dataset_path: "dataset p = OUTPUT_GEODATABASE @ [CHR 0x5C] @ FC_NAME_of p"
  by (cases p)
     (simp_all add: dataset_def path_join_def is_sep_def OUTPUT_GEODATABASE_def BACKSLASH_def
        FC_NAME_defs)


section \<open>Propagation of the platform's errors\<close>

lemma propagated_append:
  "propagated api h cs1 None \<Longrightarrow> propagated api (h @ cs1) cs2 r \<Longrightarrow>
   propagated api h (cs1 @ cs2) r"
proof (induction cs1 arbitrary: h)
  case Nil
  then show ?case by simp
next
  case (Cons c cs1)
  then show ?case
    by (cases "api h c") simp_all
qed

lemma propagates_invoke: "propagates api (invoke api c)"
  unfolding propagates_def
proof
  fix h
  have "fst (invoke api c h) = h @ [c] \<and> propagated api h [c] (snd (invoke api c h))"
    by (simp add: invoke_def split: option.split)
  then show "\<exists>cs. fst (invoke api c h) = h @ cs \<and> propagated api h cs (snd (invoke api c h))"
    by blast
qed

lemma propagates_raise: "propagates api (raise IndexError)"
  by (simp add: propagates_def raise_def)

lemma propagates_block:
  "\<forall>m\<in>set ms. propagates api m \<Longrightarrow> propagates api (block ms)"
proof (induction ms)
  case Nil
  then show ?case by (simp add: propagates_def)
next
  case (Cons m ms)
  then have m: "propagates api m" and rest: "propagates api (block ms)"
    by simp_all
  show ?case
    unfolding propagates_def
  proof
    fix h
    from m obtain cs1 where cs1: "fst (m h) = h @ cs1" "propagated api h cs1 (snd (m h))"
      unfolding propagates_def by blast
    show "\<exists>cs. fst (block (m # ms) h) = h @ cs
            \<and> propagated api h cs (snd (block (m # ms) h))"
    proof (cases "snd (m h)")
      case None
      from rest obtain cs2 where cs2: "fst (block ms (h @ cs1)) = (h @ cs1) @ cs2"
          "propagated api (h @ cs1) cs2 (snd (block ms (h @ cs1)))"
        unfolding propagates_def by blast
      from None cs1 have mh: "m h = (h @ cs1, None)"
        by (metis prod.collapse)
      from None cs1 cs2 have "propagated api h (cs1 @ cs2) (snd (block ms (h @ cs1)))"
        by (simp add: propagated_append)
      with mh cs2 have "fst (block (m # ms) h) = h @ (cs1 @ cs2)
          \<and> propagated api h (cs1 @ cs2) (snd (block (m # ms) h))"
        by simp
      then show ?thesis by blast
    next
      case (Some x)
      with cs1 have mh: "m h = (h @ cs1, Some x)"
        by (metis prod.collapse)
      with Some cs1 have "fst (block (m # ms) h) = h @ cs1
          \<and> propagated api h cs1 (snd (block (m # ms) h))"
        by simp
      then show ?thesis by blast
    qed
  qed
qed

lemma propagates_exec: "propagates api (exec api cs)"
  unfolding exec_def by (rule propagates_block) (simp add: propagates_invoke)

lemma propagates_add_fields_body: "propagates api (add_fields_body api table fs)"
proof (cases "getitem fs 0")
  case None
  then show ?thesis by (simp add: add_fields_body_def propagates_raise)
next
  case (Some name)
  have "propagates api (case AddField_call table fs of
      None \<Rightarrow> raise IndexError | Some c \<Rightarrow> invoke api c)"
    by (cases "AddField_call table fs") (simp_all add: propagates_raise propagates_invoke)
  with Some show ?thesis
    by (simp add: add_fields_body_def propagates_block propagates_invoke)
qed

lemma add_fields_block:
  "add_fields api table specs h = block (map (add_fields_body api table) specs) h"
  by (induction specs arbitrary: h) (simp_all split: prod.splits option.splits)

lemma propagates_add_fields: "propagates api (add_fields api table specs)"
proof -
  have "propagates api (block (map (add_fields_body api table) specs))"
    by (rule propagates_block) (simp add: propagates_add_fields_body)
  then show ?thesis
    by (simp add: propagates_def add_fields_block)
qed

lemma add_fields_body_length:
  "length (fst (add_fields_body api table fs h)) \<le> length h + 2"
  by (simp add: add_fields_body_def invoke_def raise_def split: option.splits)

lemma add_fields_length:
  "length (fst (add_fields api table specs h)) \<le> length h + 2 * length specs"
proof (induction specs arbitrary: h)
  case Nil
  then show ?case by simp
next
  case (Cons fs specs)
  obtain h' r where body: "add_fields_body api table fs h = (h', r)"
    by (cases "add_fields_body api table fs h")
  with add_fields_body_length [of api table fs h] have h': "length h' \<le> length h + 2"
    by simp
  show ?case
  proof (cases r)
    case None
    with body Cons.IH [of h'] h' show ?thesis by simp
  next
    case (Some x)
    with body h' show ?thesis by simp
  qed
qed

lemma exec_index_fails_at:
  "filter is_AddIndex pre = [] \<Longrightarrow> is_AddIndex c \<Longrightarrow>
   exec index_fails (pre @ c # post) h = (h @ pre @ [c], Some (ApiError ''ERROR 000464''))"
  by (simp add: exec_append exec_index_fails exec_Cons index_fails_def)



section \<open>The entry point\<close>

lemma well_permits_exec:
  "create_databases_well_permits api = exec api (script Create_databases_well_permits)"
  using run_script [of Create_databases_well_permits api] by (simp add: run.simps)

lemma main_exec: "main api = exec api (script Create_databases_well_permits @ reminder)"
  by (simp add: main_def well_permits_exec reminder_def invoke_exec block_exec_exec
      block_exec_single)

lemma emitted_main: "emitted main = script Create_databases_well_permits @ reminder"
  by (simp add: emitted_def main_exec exec_never_fails)

lemma emitted_well_permits:
  "emitted create_databases_well_permits = script Create_databases_well_permits"
  by (simp add: emitted_def well_permits_exec exec_never_fails)


text \<open>
  A tuple with fewer than nine components: the message is displayed, then reading the
  arguments of the call raises IndexError and no field is added.
\<close>

lemma short_tuple_raises:
  "add_fields index_fails ''T'' [[PStr ''n'', PStr ''TEXT'']] [] =
     ([AddMessage (TAB @ TAB @ ''Adding n'')], Some IndexError)"
  by (simp add: add_fields_body_def getitem_def AddField_call_def invoke_def raise_def
      index_fails_def py_format_def)



section \<open>The effect of the calls on the privilege table\<close>

lemma grant_view_effect:
  "ChangePrivileges_effect ''GRANT'' ''AS_IS'' pr = (True, snd pr)"
  by (simp add: ChangePrivileges_effect_def)

lemma privileges_after_view_grants:
  "\<forall>c\<in>set cs. is_ChangePrivileges c \<longrightarrow>
     c = ChangePrivileges_management d0 ''GIS_READ'' ''GRANT'' ''AS_IS'' \<Longrightarrow>
   foldl privileges_after acl cs =
     (if filter is_ChangePrivileges cs = [] then acl
      else acl((d0, ''GIS_READ'') := (True, snd (acl (d0, ''GIS_READ'')))))"
proof (induction cs arbitrary: acl)
  case Nil
  then show ?case by simp
next
  case (Cons c cs)
  then have rest: "\<forall>c\<in>set cs. is_ChangePrivileges c \<longrightarrow>
      c = ChangePrivileges_management d0 ''GIS_READ'' ''GRANT'' ''AS_IS''"
    by simp
  show ?case
  proof (cases "is_ChangePrivileges c")
    case True
    with Cons.prems have c: "c = ChangePrivileges_management d0 ''GIS_READ'' ''GRANT'' ''AS_IS''"
      by simp
    show ?thesis
      by (auto simp add: c Cons.IH [OF rest] grant_view_effect fun_eq_iff)
  next
    case False
    then have "privileges_after acl c = acl"
      by (cases c) simp_all
    with False show ?thesis
      by (simp add: Cons.IH [OF rest])
  qed
qed

lemma only_grant_in_filter:
  "filter is_ChangePrivileges cs = [g] \<Longrightarrow> \<forall>c\<in>set cs. is_ChangePrivileges c \<longrightarrow> c = g"
proof
  fix c
  assume one: "filter is_ChangePrivileges cs = [g]" and "c \<in> set cs"
  show "is_ChangePrivileges c \<longrightarrow> c = g"
  proof
    assume "is_ChangePrivileges c"
    with \<open>c \<in> set cs\<close> have "c \<in> set (filter is_ChangePrivileges cs)"
      by simp
    with one show "c = g"
      by simp
  qed
qed

lemma only_grant_in_take:
  "\<forall>c\<in>set cs. is_ChangePrivileges c \<longrightarrow> c = g \<Longrightarrow>
   \<forall>c\<in>set (take n cs). is_ChangePrivileges c \<longrightarrow> c = g"
  by (meson in_set_takeD)

lemma privileges_frame:
  assumes "\<forall>c\<in>set cs. is_ChangePrivileges c \<longrightarrow>
     c = ChangePrivileges_management d0 ''GIS_READ'' ''GRANT'' ''AS_IS''"
  shows "snd (foldl privileges_after acl cs (d, u)) = snd (acl (d, u))"
    and "u = ''GIS_READ'' \<or> foldl privileges_after acl cs (d, u) = acl (d, u)"
  using privileges_after_view_grants [OF assms, of acl] by auto


section \<open>Two runs of one function\<close>

lemma length_field_calls: "length (concat (map (field_calls t) specs)) = 2 * length specs"
  by (induction specs) (simp_all add: field_calls_def)

lemma well_inventory_index_fails:
  "run Create_databases_well_inventory index_fails [] =
     ([AddMessage (NL @ NL @ ''Creating feature class '' @ FC_NAME_WI),
       CreateFeatureclass_management OUTPUT_GEODATABASE FC_NAME_WI ''POINT'' UTM_16N_NAD83,
       AddMessage (TAB @ ''Adding fields'')]
      @ concat (map (field_calls (dataset Create_databases_well_inventory))
          fields_spec_well_inventory)
      @ [AddMessage (TAB @ ''Creating indexes''),
         AddIndex_management (dataset Create_databases_well_inventory) ''NWF_ID''
           (FC_NAME_WI @ ''__I1'')],
      Some (ApiError ''ERROR 000464''))"
proof -
  let ?pre = "[AddMessage (NL @ NL @ ''Creating feature class '' @ FC_NAME_WI),
       CreateFeatureclass_management OUTPUT_GEODATABASE FC_NAME_WI ''POINT'' UTM_16N_NAD83,
       AddMessage (TAB @ ''Adding fields'')]
      @ concat (map (field_calls (dataset Create_databases_well_inventory))
          fields_spec_well_inventory)
      @ [AddMessage (TAB @ ''Creating indexes'')]"
  let ?c = "AddIndex_management (dataset Create_databases_well_inventory) ''NWF_ID''
           (FC_NAME_WI @ ''__I1'')"
  let ?post = "[AddIndex_management (dataset Create_databases_well_inventory) ''STATE_ID''
           (FC_NAME_WI @ ''__I2''),
       AddMessage (TAB @ ''Granting privileges''),
       ChangePrivileges_management (dataset Create_databases_well_inventory)
         ''GIS_READ'' ''GRANT'' ''AS_IS'']"
  have shape: "script Create_databases_well_inventory = ?pre @ ?c # ?post"
    unfolding script_def by (simp add: FC_NAME_of.simps)
  have pre: "filter is_AddIndex ?pre = []"
    by (simp add: no_index_in_field_calls)
  have "is_AddIndex ?c"
    by simp
  with pre have "exec index_fails (?pre @ ?c # ?post) [] =
      ([] @ ?pre @ [?c], Some (ApiError ''ERROR 000464''))"
    by (rule exec_index_fails_at)
  with shape show ?thesis
    by (simp add: run_script)
qed

lemma well_inventory_never_fails:
  "run Create_databases_well_inventory never_fails [] =
     (script Create_databases_well_inventory, None)"
  by (simp add: run_script exec_never_fails)


section \<open>The claims\<close>

text \<open>
  Claim C1. Every feature class creation function issues exactly one
  \<open>CreateFeatureclass_management\<close> call, for a point feature class of its own name, then
  one \<open>AddField_management\<close> call for each tuple of its own list of field specifications,
  in the order of the list, then its index creations, if it has any, and last exactly one
  \<open>ChangePrivileges_management\<close> call that grants View to \<open>GIS_READ\<close>: the grant is the last
  call of the function. On a platform where no call fails the function issues all of them
  and returns.
\<close>

theorem C1_creation_function_calls:
  "geodatabase_operations (emitted (run p)) =
     [CreateFeatureclass_management OUTPUT_GEODATABASE (FC_NAME_of p) ''POINT'' UTM_16N_NAD83]
     @ map (\<lambda>fs. AddField_management (dataset p)
         (fs ! 0) (fs ! 1) (fs ! 2) (fs ! 3) (fs ! 4) (fs ! 5) (fs ! 6) (fs ! 7) (fs ! 8))
       (fields_spec_of p)
     @ filter is_AddIndex (emitted (run p))
     @ [ChangePrivileges_management (dataset p) ''GIS_READ'' ''GRANT'' ''AS_IS'']
   \<and> filter is_CreateFeatureclass (emitted (run p)) =
     [CreateFeatureclass_management OUTPUT_GEODATABASE (FC_NAME_of p) ''POINT'' UTM_16N_NAD83]
   \<and> filter is_ChangePrivileges (emitted (run p)) =
     [ChangePrivileges_management (dataset p) ''GIS_READ'' ''GRANT'' ''AS_IS'']
   \<and> last (emitted (run p)) =
     ChangePrivileges_management (dataset p) ''GIS_READ'' ''GRANT'' ''AS_IS''
   \<and> run p never_fails [] = (emitted (run p), None)"
proof -
  have completes: "run p never_fails [] = (emitted (run p), None)"
    by (subst run_exec) (simp add: exec_never_fails)
  with script_operations [of p] script_one_create [of p] script_one_grant [of p]
    script_last [of p]
  show ?thesis
    by (simp add: emitted_run)
qed

text \<open>
  Claim C5. Every creation function creates its feature class with geometry type
  \<open>POINT\<close> and the one spatial reference \<open>UTM_16N_NAD83\<close>, which is
  \<open>SpatialReference(26916)\<close>, under the one database connection \<open>OUTPUT_GEODATABASE\<close>,
  which is \<open>Database Connections\orcl$gis.sde\<close>; the dataset it then works on is the
  feature class of that name under that connection.
\<close>

theorem C5_point_geometry_and_reference:
  "filter is_CreateFeatureclass (emitted (run p)) =
     [CreateFeatureclass_management OUTPUT_GEODATABASE (FC_NAME_of p) ''POINT'' UTM_16N_NAD83]
   \<and> UTM_16N_NAD83 = SpatialReference 26916
   \<and> OUTPUT_GEODATABASE = ''Database Connections'' @ [CHR 0x5C] @ ''orcl$gis.sde''
   \<and> dataset p = OUTPUT_GEODATABASE @ [CHR 0x5C] @ FC_NAME_of p"
  using script_one_create [of p] dataset_path [of p]
  by (simp add: emitted_run UTM_16N_NAD83_def OUTPUT_GEODATABASE_def BACKSLASH_def)

text \<open>
  Claim C10. In each of the thirteen lists of field specifications every tuple has
  precision \<open>''\<close>, scale \<open>''\<close>, nullable \<open>True\<close>, required \<open>''\<close> and domain \<open>''\<close>.
\<close>

theorem C10_columns_nullable_unconstrained:
  "\<forall>fs \<in> set (fields_spec_of p).
     fs ! 2 = PStr '''' \<and> fs ! 3 = PStr '''' \<and> fs ! 6 = PBool True
     \<and> fs ! 7 = PStr '''' \<and> fs ! 8 = PStr ''''"
  by (cases p) (simp_all add: fields_spec_defs)

theorem C10_columns_nullable_unconstrained_witness:
  "[PStr ''cu_apnum'', PStr ''DOUBLE'', PStr '''', PStr '''', PStr '''', PStr '''',
    PBool True, PStr '''', PStr ''''] ! 6 = PBool True
   \<and> [PStr ''wps_permit'', PStr ''TEXT'', PStr '''', PStr '''', PInt 10, PStr '''',
    PBool True, PStr '''', PStr ''''] ! 2 = PStr ''''"
proof -
  have first: "[PStr ''cu_apnum'', PStr ''DOUBLE'', PStr '''', PStr '''', PStr '''', PStr '''',
      PBool True, PStr '''', PStr ''''] \<in> set (fields_spec_of Create_databases_wup_wells)"
    by (simp add: fields_spec_wup_wells_def)
  have second: "[PStr ''wps_permit'', PStr ''TEXT'', PStr '''', PStr '''', PInt 10, PStr '''',
      PBool True, PStr '''', PStr ''''] \<in> set (fields_spec_of Create_databases_wup_wells)"
    by (simp add: fields_spec_wup_wells_def)
  from C10_columns_nullable_unconstrained [of Create_databases_wup_wells] first second
  show ?thesis
    by blast
qed


text \<open>
  Claim C4. No function catches, retries or validates. For every creation function and for
  \<open>add_fields\<close> (with any table and any list of specifications), on any platform and
  from any start: every call that returned is followed by the rest of the run, and a call
  that raised an error is the last call issued, the run ending by that very error. A run
  of a creation function is its fixed sequence of calls, each issued once, up to the first
  that fails.
\<close>

theorem C4_errors_propagate:
  "(\<exists>cs. fst (run p api h) = h @ cs \<and> propagated api h cs (snd (run p api h)))
   \<and> (\<exists>cs. fst (add_fields api table specs h) = h @ cs
         \<and> propagated api h cs (snd (add_fields api table specs h)))
   \<and> run p api h = exec api (emitted (run p)) h"
proof -
  have "propagates api (run p api)"
    by (simp add: run_script propagates_exec)
  then have first: "\<exists>cs. fst (run p api h) = h @ cs \<and> propagated api h cs (snd (run p api h))"
    unfolding propagates_def by blast
  have second: "\<exists>cs. fst (add_fields api table specs h) = h @ cs
      \<and> propagated api h cs (snd (add_fields api table specs h))"
    using propagates_add_fields [of api table specs] unfolding propagates_def by blast
  have third: "run p api h = exec api (emitted (run p)) h"
    by (simp add: emitted_run run_script)
  from first second third show ?thesis by blast
qed


theorem C4_errors_propagate_witness:
  "run Create_databases_well_inventory index_fails [] =
     ([AddMessage (NL @ NL @ ''Creating feature class '' @ FC_NAME_WI),
       CreateFeatureclass_management OUTPUT_GEODATABASE FC_NAME_WI ''POINT'' UTM_16N_NAD83,
       AddMessage (TAB @ ''Adding fields'')]
      @ concat (map (field_calls (dataset Create_databases_well_inventory))
          fields_spec_well_inventory)
      @ [AddMessage (TAB @ ''Creating indexes''),
         AddIndex_management (dataset Create_databases_well_inventory) ''NWF_ID''
           (FC_NAME_WI @ ''__I1'')],
      Some (ApiError ''ERROR 000464''))"
proof -
  let ?pre = "[AddMessage (NL @ NL @ ''Creating feature class '' @ FC_NAME_WI),
       CreateFeatureclass_management OUTPUT_GEODATABASE FC_NAME_WI ''POINT'' UTM_16N_NAD83,
       AddMessage (TAB @ ''Adding fields'')]
      @ concat (map (field_calls (dataset Create_databases_well_inventory))
          fields_spec_well_inventory)
      @ [AddMessage (TAB @ ''Creating indexes'')]"
  let ?c = "AddIndex_management (dataset Create_databases_well_inventory) ''NWF_ID''
           (FC_NAME_WI @ ''__I1'')"
  let ?post = "[AddIndex_management (dataset Create_databases_well_inventory) ''STATE_ID''
           (FC_NAME_WI @ ''__I2''),
       AddMessage (TAB @ ''Granting privileges''),
       ChangePrivileges_management (dataset Create_databases_well_inventory)
         ''GIS_READ'' ''GRANT'' ''AS_IS'']"
  have shape: "emitted (run Create_databases_well_inventory) = ?pre @ ?c # ?post"
    unfolding emitted_run script_def by (simp add: FC_NAME_of.simps)
  have pre: "filter is_AddIndex ?pre = []"
    by (simp add: no_index_in_field_calls)
  have "is_AddIndex ?c"
    by simp
  with pre have "exec index_fails (?pre @ ?c # ?post) [] =
      ([] @ ?pre @ [?c], Some (ApiError ''ERROR 000464''))"
    by (rule exec_index_fails_at)
  with shape C4_errors_propagate [of Create_databases_well_inventory index_fails "[]"]
  show ?thesis
    by simp
qed

text \<open>
  Claim C3, as the code has it. When the script is run as a program, \<open>main\<close> calls one
  of the thirteen creation functions, \<open>create_databases_well_permits\<close>, and then displays
  the reminder; the calls of the other twelve are commented out. The only feature class
  created is \<open>GIS.DATABASES_WELL_PERMITS\<close>, and the geodatabase operations of the program
  are those of \<open>create_databases_well_permits\<close>.
\<close>

theorem C3_main_calls_one_function:
  "main api = block [create_databases_well_permits api, exec api reminder]
   \<and> emitted main = emitted create_databases_well_permits @ reminder
   \<and> filter is_CreateFeatureclass (emitted main) =
       [CreateFeatureclass_management OUTPUT_GEODATABASE FC_NAME_WPS ''POINT'' UTM_16N_NAD83]
   \<and> geodatabase_operations (emitted main) =
       geodatabase_operations (emitted create_databases_well_permits)"
proof -
  have one: "main api = block [create_databases_well_permits api, exec api reminder]"
    by (simp add: main_exec well_permits_exec block_exec_exec block_exec_single)
  have two: "emitted main = emitted create_databases_well_permits @ reminder"
    by (simp add: emitted_main emitted_well_permits)
  have three: "filter is_CreateFeatureclass (emitted main) =
       [CreateFeatureclass_management OUTPUT_GEODATABASE FC_NAME_WPS ''POINT'' UTM_16N_NAD83]"
    using script_one_create [of Create_databases_well_permits]
    by (simp add: emitted_main reminder_def)
  have four: "geodatabase_operations (emitted main) =
       geodatabase_operations (emitted create_databases_well_permits)"
    by (simp add: two geodatabase_operations_def reminder_def)
  from one two three four show ?thesis by blast
qed


text \<open>
  The claim as it was stated, that the entry point calls every creation function, fails:
  the feature class creation that \<open>create_databases_erp\<close> issues is not among the calls
  of \<open>main\<close>.
\<close>

theorem C3_main_calls_every_function_counterexample:
  "CreateFeatureclass_management OUTPUT_GEODATABASE FC_NAME_ERP ''POINT'' UTM_16N_NAD83
     \<in> set (emitted create_databases_erp)
   \<and> CreateFeatureclass_management OUTPUT_GEODATABASE FC_NAME_ERP ''POINT'' UTM_16N_NAD83
     \<notin> set (emitted main)"
proof -
  let ?c = "CreateFeatureclass_management OUTPUT_GEODATABASE FC_NAME_ERP ''POINT'' UTM_16N_NAD83"
  have "emitted create_databases_erp = script Create_databases_erp"
    using emitted_run [of Create_databases_erp] by (simp add: run.simps)
  then have there: "?c \<in> set (emitted create_databases_erp)"
    by (simp add: script_def)
  have "set (filter is_CreateFeatureclass (emitted main)) =
      {CreateFeatureclass_management OUTPUT_GEODATABASE FC_NAME_WPS ''POINT'' UTM_16N_NAD83}"
    using script_one_create [of Create_databases_well_permits]
    by (simp add: emitted_main reminder_def)
  moreover have "FC_NAME_ERP \<noteq> FC_NAME_WPS"
    by (simp add: FC_NAME_ERP_def FC_NAME_WPS_def)
  ultimately have "?c \<notin> set (filter is_CreateFeatureclass (emitted main))"
    by simp
  then have "?c \<notin> set (emitted main)"
    by simp
  with there show ?thesis by blast
qed


text \<open>
  Claim C6. Attribute indexes are created by exactly three creation functions,
  \<open>create_databases_reg_station\<close> (on \<open>FLUWID\<close> and \<open>LEGACY_PERMIT_NUMBER\<close>),
  \<open>create_databases_well_inventory\<close> (on \<open>NWF_ID\<close> and \<open>STATE_ID\<close>) and
  \<open>create_databases_well_permits\<close> (on \<open>FLUWID\<close> and \<open>PERMIT_NUMBER\<close>): two each,
  named by the feature class name followed by \<open>__I1\<close> and \<open>__I2\<close>, issued after all
  the fields are added and before the privileges are granted. No other creation function
  issues an \<open>AddIndex_management\<close> call.
\<close>

theorem C6_attribute_indexes:
  "filter is_AddIndex (emitted (run p)) =
     (if p = Create_databases_reg_station then
        [AddIndex_management (dataset p) ''FLUWID'' (FC_NAME_REG_STATION @ ''__I1''),
         AddIndex_management (dataset p) ''LEGACY_PERMIT_NUMBER'' (FC_NAME_REG_STATION @ ''__I2'')]
      else if p = Create_databases_well_inventory then
        [AddIndex_management (dataset p) ''NWF_ID'' (FC_NAME_WI @ ''__I1''),
         AddIndex_management (dataset p) ''STATE_ID'' (FC_NAME_WI @ ''__I2'')]
      else if p = Create_databases_well_permits then
        [AddIndex_management (dataset p) ''FLUWID'' (FC_NAME_WPS @ ''__I1''),
         AddIndex_management (dataset p) ''PERMIT_NUMBER'' (FC_NAME_WPS @ ''__I2'')]
      else [])
   \<and> geodatabase_operations (emitted (run p)) =
       [CreateFeatureclass_management OUTPUT_GEODATABASE (FC_NAME_of p) ''POINT'' UTM_16N_NAD83]
       @ map (\<lambda>fs. AddField_management (dataset p)
           (fs ! 0) (fs ! 1) (fs ! 2) (fs ! 3) (fs ! 4) (fs ! 5) (fs ! 6) (fs ! 7) (fs ! 8))
         (fields_spec_of p)
       @ filter is_AddIndex (emitted (run p))
       @ [ChangePrivileges_management (dataset p) ''GIS_READ'' ''GRANT'' ''AS_IS'']
   \<and> FC_NAME_REG_STATION @ ''__I1'' = ''GIS.DATABASES_REG_STATION__I1''
   \<and> FC_NAME_WI @ ''__I2'' = ''GIS.DATABASES_WELL_INVENTORY__I2''
   \<and> FC_NAME_WPS @ ''__I1'' = ''GIS.DATABASES_WELL_PERMITS__I1''"
proof -
  have idx: "filter is_AddIndex (emitted (run p)) =
     (if p = Create_databases_reg_station then
        [AddIndex_management (dataset p) ''FLUWID'' (FC_NAME_REG_STATION @ ''__I1''),
         AddIndex_management (dataset p) ''LEGACY_PERMIT_NUMBER'' (FC_NAME_REG_STATION @ ''__I2'')]
      else if p = Create_databases_well_inventory then
        [AddIndex_management (dataset p) ''NWF_ID'' (FC_NAME_WI @ ''__I1''),
         AddIndex_management (dataset p) ''STATE_ID'' (FC_NAME_WI @ ''__I2'')]
      else if p = Create_databases_well_permits then
        [AddIndex_management (dataset p) ''FLUWID'' (FC_NAME_WPS @ ''__I1''),
         AddIndex_management (dataset p) ''PERMIT_NUMBER'' (FC_NAME_WPS @ ''__I2'')]
      else [])"
    using script_indexes [of p] by (auto simp add: emitted_run)
  from idx script_operations [of p] show ?thesis
    by (simp add: emitted_run FC_NAME_REG_STATION_def FC_NAME_WI_def FC_NAME_WPS_def)
qed


text \<open>
  Claim C2. For every table name and every list of field specifications that are tuples
  of nine components, \<open>add_fields\<close> issues, for each tuple in the order of the list, the
  progress message and then one \<open>AddField_management\<close> call whose nine arguments after
  the table are the tuple's components 0 to 8, unchanged, whatever their values: nothing is
  validated, transformed, left out or reordered. On any platform the run is this sequence of
  calls up to the first that fails; where none fails, all of them are issued and
  \<open>add_fields\<close> returns.
\<close>

theorem C2_add_fields_passes_through:
  assumes "\<forall>field_spec \<in> set specs. length field_spec = 9"
  shows "add_fields api table specs h =
           exec api (concat (map (\<lambda>fs.
             [AddMessage (TAB @ TAB @ ''Adding '' @ py_format (fs ! 0)),
              AddField_management table
                (fs ! 0) (fs ! 1) (fs ! 2) (fs ! 3) (fs ! 4) (fs ! 5) (fs ! 6) (fs ! 7) (fs ! 8)])
             specs)) h
         \<and> geodatabase_operations (fst (add_fields never_fails table specs [])) =
           map (\<lambda>fs. AddField_management table
             (fs ! 0) (fs ! 1) (fs ! 2) (fs ! 3) (fs ! 4) (fs ! 5) (fs ! 6) (fs ! 7) (fs ! 8))
             specs
         \<and> snd (add_fields never_fails table specs []) = None"
proof -
  from assms have wf: "\<forall>fs\<in>set specs. 9 \<le> length fs"
    by simp
  have calls: "(\<lambda>fs.
             [AddMessage (TAB @ TAB @ ''Adding '' @ py_format (fs ! 0)),
              AddField_management table
                (fs ! 0) (fs ! 1) (fs ! 2) (fs ! 3) (fs ! 4) (fs ! 5) (fs ! 6) (fs ! 7) (fs ! 8)])
      = field_calls table"
    by (rule ext) (simp add: field_calls_def)
  from wf show ?thesis
    unfolding calls
    by (simp add: add_fields_exec exec_never_fails geodatabase_operations_def
        filter_field_calls)
qed


theorem C2_add_fields_passes_through_witness:
  "geodatabase_operations (fst (add_fields (never_fails :: unit api) ''T''
     [[PInt 7, PNone, PBool False, PStr ''x'', PInt (-1), PStr ''a b'', PStr ''no'', PInt 0,
       PStr ''D''],
      [PStr ''n'', PStr ''TEXT'', PStr '''', PStr '''', PInt 35, PStr '''', PBool True,
       PStr '''', PStr '''']] [])) =
   [AddField_management ''T'' (PInt 7) PNone (PBool False) (PStr ''x'') (PInt (-1))
      (PStr ''a b'') (PStr ''no'') (PInt 0) (PStr ''D''),
    AddField_management ''T'' (PStr ''n'') (PStr ''TEXT'') (PStr '''') (PStr '''') (PInt 35)
      (PStr '''') (PBool True) (PStr '''') (PStr '''')]"
proof -
  let ?specs = "[[PInt 7, PNone, PBool False, PStr ''x'', PInt (-1), PStr ''a b'', PStr ''no'',
       PInt 0, PStr ''D''],
      [PStr ''n'', PStr ''TEXT'', PStr '''', PStr '''', PInt 35, PStr '''', PBool True,
       PStr '''', PStr '''']]"
  have wf: "\<forall>field_spec \<in> set ?specs. length field_spec = 9"
    by simp
  from C2_add_fields_passes_through [OF wf, of "never_fails :: unit api" "''T''" "[]",
      THEN conjunct2, THEN conjunct1]
  show ?thesis
    by (simp del: add_fields.simps)
qed


text \<open>
  Claim C9. When every field specification has at least nine components, every read
  \<open>field_spec[i]\<close> with \<open>i\<close> from 0 to 8 is in bounds, and \<open>add_fields\<close> does not end
  by an IndexError. The precondition holds at every call site: each tuple of each of the
  thirteen lists has nine components, and no creation function ends by an IndexError.
  \<open>add_fields\<close> is a total function defined by recursion over the list, and a run of it
  issues at most two calls for each element of the list.
\<close>

theorem C9_indexing_in_bounds:
  assumes "\<forall>field_spec \<in> set specs. 9 \<le> length field_spec"
  shows "(\<forall>field_spec \<in> set specs. \<forall>i < 9. getitem field_spec i = Some (field_spec ! i))
         \<and> snd (add_fields api table specs h) \<noteq> Some IndexError
         \<and> length (fst (add_fields api table specs h)) \<le> length h + 2 * length specs
         \<and> (\<forall>field_spec \<in> set (fields_spec_of p). length field_spec = 9)
         \<and> snd (run p api h) \<noteq> Some IndexError"
proof -
  from assms have one: "\<forall>fs \<in> set specs. \<forall>i < 9. getitem fs i = Some (fs ! i)"
    by (simp add: getitem_in_range)
  from assms have two: "snd (add_fields api table specs h) \<noteq> Some IndexError"
    by (simp add: add_fields_exec exec_no_IndexError)
  have three: "snd (run p api h) \<noteq> Some IndexError"
    by (simp add: run_script exec_no_IndexError)
  from one two three add_fields_length [of api table specs h] fields_spec_lengths [of p]
  show ?thesis by blast
qed


theorem C9_indexing_in_bounds_witness:
  "getitem [PStr ''n'', PStr ''TEXT'', PStr '''', PStr '''', PInt 35, PStr '''', PBool True,
       PStr '''', PStr '''', PStr ''extra''] 8 = Some (PStr '''')
   \<and> snd (add_fields index_fails ''T''
       [[PStr ''n'', PStr ''TEXT'', PStr '''', PStr '''', PInt 35, PStr '''', PBool True,
         PStr '''', PStr '''', PStr ''extra'']] []) \<noteq> Some IndexError"
proof -
  let ?t = "[PStr ''n'', PStr ''TEXT'', PStr '''', PStr '''', PInt 35, PStr '''', PBool True,
       PStr '''', PStr '''', PStr ''extra'']"
  have wf: "\<forall>field_spec \<in> set [?t]. 9 \<le> length field_spec"
    by simp
  note inst = C9_indexing_in_bounds [OF wf, of index_fails "''T''" "[]" Create_databases_mssw]
  from inst have "getitem ?t 8 = Some (?t ! 8)"
    by simp
  moreover from inst have "snd (add_fields index_fails ''T'' [?t] []) \<noteq> Some IndexError"
    by blast
  ultimately show ?thesis
    by simp
qed


text \<open>
  Claim C7. The only privilege change of a creation function is its one
  \<open>ChangePrivileges_management\<close> call, for user \<open>GIS_READ\<close> with View \<open>GRANT\<close> and Edit
  \<open>AS_IS\<close>; the same holds for the program as \<open>main\<close> runs it. On the privilege table as
  the keywords describe it, a complete run changes one entry only, the view privilege of
  \<open>GIS_READ\<close> on the function's feature class, which it grants; and after any run,
  complete or cut short by a failure, the edit privilege of every user on every dataset,
  and both privileges of every user other than \<open>GIS_READ\<close>, are what they were.
\<close>

theorem C7_only_view_is_granted:
  "filter is_ChangePrivileges (emitted (run p)) =
     [ChangePrivileges_management (dataset p) ''GIS_READ'' ''GRANT'' ''AS_IS'']
   \<and> foldl privileges_after acl (emitted (run p)) =
       acl((dataset p, ''GIS_READ'') := (True, snd (acl (dataset p, ''GIS_READ''))))
   \<and> snd (foldl privileges_after acl (take n (emitted (run p))) (d, u)) = snd (acl (d, u))
   \<and> (u = ''GIS_READ''
       \<or> foldl privileges_after acl (take n (emitted (run p))) (d, u) = acl (d, u))
   \<and> filter is_ChangePrivileges (emitted main) =
       [ChangePrivileges_management (dataset Create_databases_well_permits)
          ''GIS_READ'' ''GRANT'' ''AS_IS'']
   \<and> snd (foldl privileges_after acl (take n (emitted main)) (d, u)) = snd (acl (d, u))
   \<and> (u = ''GIS_READ''
       \<or> foldl privileges_after acl (take n (emitted main)) (d, u) = acl (d, u))"
proof -
  let ?g = "\<lambda>p. ChangePrivileges_management (dataset p) ''GIS_READ'' ''GRANT'' ''AS_IS''"
  have one: "filter is_ChangePrivileges (emitted (run p)) = [?g p]"
    by (simp add: emitted_run script_one_grant)
  then have all: "\<forall>c\<in>set (emitted (run p)). is_ChangePrivileges c \<longrightarrow> c = ?g p"
    by (rule only_grant_in_filter)
  then have part: "\<forall>c\<in>set (take n (emitted (run p))). is_ChangePrivileges c \<longrightarrow> c = ?g p"
    by (rule only_grant_in_take)
  have whole: "foldl privileges_after acl (emitted (run p)) =
       acl((dataset p, ''GIS_READ'') := (True, snd (acl (dataset p, ''GIS_READ''))))"
    using privileges_after_view_grants [OF all, of acl] one by simp
  have main_one: "filter is_ChangePrivileges (emitted main) = [?g Create_databases_well_permits]"
    by (simp add: emitted_main script_one_grant reminder_def)
  then have "\<forall>c\<in>set (emitted main). is_ChangePrivileges c \<longrightarrow>
      c = ?g Create_databases_well_permits"
    by (rule only_grant_in_filter)
  then have main_part: "\<forall>c\<in>set (take n (emitted main)). is_ChangePrivileges c \<longrightarrow>
      c = ?g Create_databases_well_permits"
    by (rule only_grant_in_take)
  note frame = privileges_frame [OF part, where acl = acl and d = d and u = u]
  note main_frame = privileges_frame [OF main_part, where acl = acl and d = d and u = u]
  from one whole frame main_one main_frame show ?thesis
    by blast
qed


text \<open>
  Claim C8, as the code has it. The program takes no input and reads no answer of the
  platform, so the calls it issues depend on the platform only by stopping at a call that
  fails. For every creation function, and for the program as \<open>main\<close> runs it, there is one
  fixed sequence of calls (operation kinds, target paths, field specifications, index names,
  privilege arguments); on any platform and from any start a run issues an initial segment
  of that sequence, cut at the first call that fails, and the whole sequence when the run
  ends normally, so that any two runs that end normally issue the same calls.
\<close>

theorem C8_fixed_sequence:
  "run p api h = exec api (emitted (run p)) h
   \<and> (\<exists>n. n \<le> length (emitted (run p)) \<and> fst (run p api h) = h @ take n (emitted (run p)))
   \<and> (snd (run p api h) = None \<longrightarrow> fst (run p api h) = h @ emitted (run p))
   \<and> (snd (run p api h) = None \<and> snd (run p api' h') = None \<longrightarrow>
        drop (length h) (fst (run p api h)) = drop (length h') (fst (run p api' h')))
   \<and> main api h = exec api (emitted main) h
   \<and> (\<exists>n. n \<le> length (emitted main) \<and> fst (main api h) = h @ take n (emitted main))
   \<and> (snd (main api h) = None \<longrightarrow> fst (main api h) = h @ emitted main)
   \<and> (snd (main api h) = None \<and> snd (main api' h') = None \<longrightarrow>
        drop (length h) (fst (main api h)) = drop (length h') (fst (main api' h')))"
proof -
  have eq: "\<And>a k. run p a k = exec a (emitted (run p)) k"
    by (simp add: emitted_run run_script)
  have pre: "\<exists>n. n \<le> length (emitted (run p)) \<and> fst (run p api h) = h @ take n (emitted (run p))"
    using exec_take [of "emitted (run p)" api h] by (simp add: eq)
  have full: "\<And>a k. snd (run p a k) = None \<Longrightarrow> fst (run p a k) = k @ emitted (run p)"
    using exec_completes by (simp add: eq)
  have two: "snd (run p api h) = None \<and> snd (run p api' h') = None \<longrightarrow>
        drop (length h) (fst (run p api h)) = drop (length h') (fst (run p api' h'))"
    by (simp add: full)
  have meq: "\<And>a k. main a k = exec a (emitted main) k"
    by (simp add: emitted_main main_exec)
  have mpre: "\<exists>n. n \<le> length (emitted main) \<and> fst (main api h) = h @ take n (emitted main)"
    using exec_take [of "emitted main" api h] by (simp add: meq)
  have mfull: "\<And>a k. snd (main a k) = None \<Longrightarrow> fst (main a k) = k @ emitted main"
    using exec_completes by (simp add: meq)
  have mtwo: "snd (main api h) = None \<and> snd (main api' h') = None \<longrightarrow>
        drop (length h) (fst (main api h)) = drop (length h') (fst (main api' h'))"
    by (simp add: mfull)
  from eq pre full two meq mpre mfull mtwo show ?thesis
    by blast
qed


theorem C8_fixed_sequence_witness:
  "snd (run Create_databases_mssw index_fails []) = None
   \<and> snd (run Create_databases_mssw (never_fails :: unit api)
        [CreateFeatureclass_management ''a'' ''b'' ''POINT'' UTM_16N_NAD83]) = None
   \<and> fst (run Create_databases_mssw index_fails []) = emitted (run Create_databases_mssw)
   \<and> drop 0 (fst (run Create_databases_mssw index_fails [])) =
       drop 1 (fst (run Create_databases_mssw (never_fails :: unit api)
         [CreateFeatureclass_management ''a'' ''b'' ''POINT'' UTM_16N_NAD83]))
   \<and> snd (main (never_fails :: string api) []) = None
   \<and> snd (main (never_fails :: unit api) [AddMessage ''start'']) = None
   \<and> fst (main (never_fails :: string api) []) = emitted main
   \<and> drop 0 (fst (main (never_fails :: string api) [])) =
       drop 1 (fst (main (never_fails :: unit api) [AddMessage ''start'']))"
proof -
  have "filter is_AddIndex (emitted (run Create_databases_mssw)) = []"
    using script_indexes [of Create_databases_mssw] by (simp add: emitted_run)
  then have one: "snd (run Create_databases_mssw index_fails []) = None"
    by (subst run_exec) (simp add: exec_index_fails)
  have other: "snd (run Create_databases_mssw (never_fails :: unit api)
      [CreateFeatureclass_management ''a'' ''b'' ''POINT'' UTM_16N_NAD83]) = None"
    by (subst run_exec) (simp add: exec_never_fails)
  note inst = C8_fixed_sequence [of Create_databases_mssw index_fails "[]"
      "never_fails :: unit api"
      "[CreateFeatureclass_management ''a'' ''b'' ''POINT'' UTM_16N_NAD83]"]
  from inst one have whole: "fst (run Create_databases_mssw index_fails []) =
      [] @ emitted (run Create_databases_mssw)"
    by blast
  from inst one other have same: "drop (length ([] :: call list))
        (fst (run Create_databases_mssw index_fails [])) =
      drop (length [CreateFeatureclass_management ''a'' ''b'' ''POINT'' UTM_16N_NAD83])
        (fst (run Create_databases_mssw (never_fails :: unit api)
          [CreateFeatureclass_management ''a'' ''b'' ''POINT'' UTM_16N_NAD83]))"
    by blast
  have mone: "snd (main (never_fails :: string api) []) = None"
    by (simp add: main_exec exec_never_fails)
  have mother: "snd (main (never_fails :: unit api) [AddMessage ''start'']) = None"
    by (simp add: main_exec exec_never_fails)
  note minst = C8_fixed_sequence [of Create_databases_mssw "never_fails :: string api" "[]"
      "never_fails :: unit api" "[AddMessage ''start'']"]
  from minst mone have mwhole: "fst (main (never_fails :: string api) []) = [] @ emitted main"
    by blast
  from minst mone mother have msame: "drop (length ([] :: call list))
        (fst (main (never_fails :: string api) [])) =
      drop (length [AddMessage ''start''])
        (fst (main (never_fails :: unit api) [AddMessage ''start'']))"
    by blast
  from one other whole same mone mother mwhole msame show ?thesis
    by simp
qed


text \<open>
  The claim as it was stated, that the calls issued are identical across any two runs,
  fails: \<open>create_databases_well_inventory\<close> issues 36 calls where no call fails, and 33
  where index creation fails, the run ending at the first \<open>AddIndex_management\<close> call
  without the second index and without the grant of privileges.
\<close>

theorem C8_identical_runs_counterexample:
  "fst (run Create_databases_well_inventory index_fails [])
     \<noteq> fst (run Create_databases_well_inventory (never_fails :: string api) [])
   \<and> length (fst (run Create_databases_well_inventory index_fails [])) = 33
   \<and> length (fst (run Create_databases_well_inventory (never_fails :: string api) [])) = 36
   \<and> ChangePrivileges_management (dataset Create_databases_well_inventory)
         ''GIS_READ'' ''GRANT'' ''AS_IS''
       \<in> set (geodatabase_operations
           (fst (run Create_databases_well_inventory (never_fails :: string api) [])))
   \<and> ChangePrivileges_management (dataset Create_databases_well_inventory)
         ''GIS_READ'' ''GRANT'' ''AS_IS''
       \<notin> set (geodatabase_operations
           (fst (run Create_databases_well_inventory index_fails [])))"
proof -
  have n: "length fields_spec_well_inventory = 14"
    by (simp add: fields_spec_well_inventory_def)
  have short: "length (fst (run Create_databases_well_inventory index_fails [])) = 33"
    by (simp add: well_inventory_index_fails length_field_calls n)
  have long: "length (fst (run Create_databases_well_inventory (never_fails :: string api) []))
      = 36"
    by (simp add: well_inventory_never_fails script_def length_field_calls n
        FC_NAME_of.simps fields_spec_of.simps)
  from short long have differ: "fst (run Create_databases_well_inventory index_fails [])
     \<noteq> fst (run Create_databases_well_inventory (never_fails :: string api) [])"
    by auto
  have there: "ChangePrivileges_management (dataset Create_databases_well_inventory)
         ''GIS_READ'' ''GRANT'' ''AS_IS''
       \<in> set (geodatabase_operations
           (fst (run Create_databases_well_inventory (never_fails :: string api) [])))"
    by (simp add: well_inventory_never_fails script_operations)
  have "filter is_ChangePrivileges
      (fst (run Create_databases_well_inventory index_fails [])) = []"
    by (simp add: well_inventory_index_fails no_grant_in_field_calls)
  then have "\<forall>c\<in>set (fst (run Create_databases_well_inventory index_fails [])).
      \<not> is_ChangePrivileges c"
    by (simp add: filter_empty_conv)
  then have absent: "ChangePrivileges_management (dataset Create_databases_well_inventory)
         ''GIS_READ'' ''GRANT'' ''AS_IS''
       \<notin> set (geodatabase_operations
           (fst (run Create_databases_well_inventory index_fails [])))"
    by (auto simp add: geodatabase_operations_def)
  from differ short long there absent show ?thesis
    by blast
qed


end
